theory Spec2Isabelle
  imports Complex_Main "HOL-Library.Word" "HOL-Library.Signed_Division"
begin

section \<open>Data model\<close>

text \<open>
  The file \<^verbatim>\<open>src/collective/aggregator.h\<close> is the code every worker process runs. The
  embedding follows one worker: its rank, its local buffers, the replies the collective
  layer hands back to it, and the list of calls it makes to its collaborators. What several
  workers see together is obtained by feeding a follower the payloads the leader passed to
  \<^verbatim>\<open>Broadcast\<close>.
\<close>

type_synonym byte = "8 word"

text \<open>A \<^verbatim>\<open>float\<close> is kept as its 32 bit pattern: the gradient code of this file only
  copies, zeroes and reinterprets floats, it never computes with them. The pattern of
  \<^verbatim>\<open>0.0f\<close> is \<open>0\<close>.\<close>

type_synonym float32 = "32 word"

datatype GradientPair = GradientPair (grad: float32) (hess: float32)

text \<open>Modelled from the spec: the partition mode read through \<^verbatim>\<open>MetaInfo\<close> is one of
  row-split, vertical-federated and vertical-plain; \<^verbatim>\<open>xgboost/data.h\<close> is not among the
  sources.\<close>

datatype MetaInfo = RowSplit | VerticalFederated | VerticalPlain

definition IsRowSplit :: "MetaInfo \<Rightarrow> bool" where
  "IsRowSplit info = (info = RowSplit)"

definition IsVerticalFederated :: "MetaInfo \<Rightarrow> bool" where
  "IsVerticalFederated info = (info = VerticalFederated)"

text \<open>What a worker reads from its process and its build: its rank, the encryption switch,
  whether the build defines \<^verbatim>\<open>XGBOOST_USE_FEDERATED\<close>, and whether the communicator of
  the global group is a \<^verbatim>\<open>FederatedComm\<close> (the target of the \<^verbatim>\<open>dynamic_cast\<close>).\<close>

record Env =
  GetRank :: nat
  IsEncrypted :: bool
  XGBOOST_USE_FEDERATED :: bool
  comm_is_FederatedComm :: bool

datatype Result = Success | Fail string

datatype exn = DmlcError string | OtherException string | BadCast

text \<open>A \<^verbatim>\<open>dmlc::Error\<close> holds the \<^verbatim>\<open>std::string\<close> it was built from, and \<^verbatim>\<open>what()\<close>
  returns it as a \<^verbatim>\<open>const char*\<close>: a string assigned from it ends before the first NUL
  character.\<close>

definition c_str :: "string \<Rightarrow> string" where
  "c_str s = takeWhile (\<lambda>c. c \<noteq> CHR 0x00) s"

text \<open>A call of a function object on the local state \<open>'s\<close> either returns or throws;
  what it wrote before throwing stays written.\<close>

datatype 's completion = Returns 's | Throws exn 's

text \<open>Modelled from the spec: the logging macro \<^verbatim>\<open>LOG(FATAL)\<close> is not among the sources;
  a fatal report carries its message and ends the process. A worker stops without
  returning by \<^verbatim>\<open>LOG(FATAL) << msg\<close>, by the fatal report of \<^verbatim>\<open>error::NoFederated()\<close>, by
  the fatal report of \<^verbatim>\<open>SafeColl\<close> on a failed collective, by an exception that leaves the
  function, or in a collective call that never completes because the other workers do not
  take part in it.\<close>

datatype halt = Fatal string | FatalNoFederated | FatalColl string | Uncaught exn | Blocked

datatype 'r outcome = Ret 'r | Stop halt

text \<open>The views handed to the collectives: one \<^verbatim>\<open>std::size_t\<close> or \<^verbatim>\<open>std::uint64_t\<close>
  (a length that fits, so a natural number), the characters of a string, a span of bytes,
  or the elements of a vector of \<open>'a\<close>.\<close>

datatype 'a payload = PSize nat | PChars string | PBytes "byte list" | PElems "'a list"

datatype 'a reply = Delivered "'a payload" | CommError string

datatype Op = kMax | kSum

text \<open>The calls a worker makes, recorded in the order it makes them: an evaluation of the
  function object it was given, the two entry points of the encryption plugin, the two
  collectives with the view passed to them, a \<^verbatim>\<open>Resize\<close> and a \<^verbatim>\<open>Fill\<close>.\<close>

datatype 'a event =
    Call_fn
  | Call_EncryptGradient "float32 list"
  | Call_Broadcast "'a payload"
  | Call_Allreduce Op "'a list"
  | Call_Resize nat
  | Call_SyncEncryptedGradient "byte list"
  | Call_Fill

text \<open>The communication state of one worker: the replies of the collective calls still
  to come, and the calls made so far, oldest first.\<close>

record 'a net =
  inbox :: "'a reply list"
  trace :: "'a event list"

type_synonym ('a, 'r) worker = "'a net \<Rightarrow> 'r outcome \<times> 'a net"

definition emit :: "'a event \<Rightarrow> 'a net \<Rightarrow> 'a net" where
  "emit e st = st\<lparr>trace := trace st @ [e]\<rparr>"

definition return :: "'r \<Rightarrow> ('a, 'r) worker" where
  "return x st = (Ret x, st)"

definition stop :: "halt \<Rightarrow> ('a, 'r) worker" where
  "stop h st = (Stop h, st)"

definition record_call :: "'a event \<Rightarrow> ('a, unit) worker" where
  "record_call e st = (Ret (), emit e st)"

text \<open>Sequencing of statements: a stop ends the run.\<close>

definition then_do :: "('a, 'r) worker \<Rightarrow> ('r \<Rightarrow> ('a, 'q) worker) \<Rightarrow> ('a, 'q) worker" where
  "then_do m k st = (case m st of (Ret x, st') \<Rightarrow> k x st' | (Stop h, st') \<Rightarrow> (Stop h, st'))"

text \<open>\<^verbatim>\<open>rc << step\<close> of \<^verbatim>\<open>Result\<close>: the step runs only when everything before it
  succeeded; \<open>'x\<close> carries the local variables the lambdas capture by reference.\<close>

definition chain ::
  "('a, Result \<times> 'x) worker \<Rightarrow> ('x \<Rightarrow> ('a, Result \<times> 'x) worker) \<Rightarrow> ('a, Result \<times> 'x) worker" where
  "chain m step = then_do m (\<lambda>(rc, x). if rc = Success then step x else return (rc, x))"

text \<open>A plain call \<^verbatim>\<open>fn()\<close> outside any \<^verbatim>\<open>try\<close>.\<close>

definition call :: "('s \<Rightarrow> 's completion) \<Rightarrow> 's \<Rightarrow> ('a, 's) worker" where
  "call fn s st =
     (case fn s of
        Returns s' \<Rightarrow> (Ret s', emit Call_fn st)
      | Throws e s' \<Rightarrow> (Stop (Uncaught e), emit Call_fn st))"

section \<open>Collaborators\<close>

fun same_shape :: "'a payload \<Rightarrow> 'a payload \<Rightarrow> bool" where
  "same_shape (PSize _) (PSize _) = True"
| "same_shape (PChars a) (PChars b) = (length a = length b)"
| "same_shape (PBytes a) (PBytes b) = (length a = length b)"
| "same_shape (PElems a) (PElems b) = (length a = length b)"
| "same_shape _ _ = False"

text \<open>Modelled from the spec: \<^verbatim>\<open>Broadcast(context, buffer_view, source_rank)\<close> of
  \<^verbatim>\<open>broadcast.h\<close> copies the view's contents from the source rank to the identically
  shaped view on every other worker and returns an outcome; a transport fault is a
  \<open>Fail\<close>; a worker whose peers do not issue the matching call blocks for ever. The reply
  carries what the source rank sent.\<close>

definition Broadcast :: "Env \<Rightarrow> 'a payload \<Rightarrow> nat \<Rightarrow> ('a, Result \<times> 'a payload) worker" where
  "Broadcast env view source_rank st =
     (let st1 = emit (Call_Broadcast view) st in
      case inbox st1 of
        [] \<Rightarrow> (Stop Blocked, st1)
      | CommError m # rest \<Rightarrow> (Ret (Fail m, view), st1\<lparr>inbox := rest\<rparr>)
      | Delivered p # rest \<Rightarrow>
          if GetRank env = source_rank then (Ret (Success, view), st1\<lparr>inbox := rest\<rparr>)
          else if same_shape view p then (Ret (Success, p), st1\<lparr>inbox := rest\<rparr>)
          else (Stop Blocked, st1\<lparr>inbox := rest\<rparr>))"

text \<open>The instances of the template the file uses.\<close>

definition Broadcast_size :: "Env \<Rightarrow> nat \<Rightarrow> nat \<Rightarrow> ('a, Result \<times> nat) worker" where
  "Broadcast_size env n source_rank =
     then_do (Broadcast env (PSize n) source_rank)
       (\<lambda>(rc, p). return (rc, case p of PSize k \<Rightarrow> k | _ \<Rightarrow> n))"

definition Broadcast_chars :: "Env \<Rightarrow> string \<Rightarrow> nat \<Rightarrow> ('a, Result \<times> string) worker" where
  "Broadcast_chars env cs source_rank =
     then_do (Broadcast env (PChars cs) source_rank)
       (\<lambda>(rc, p). return (rc, case p of PChars ds \<Rightarrow> ds | _ \<Rightarrow> cs))"

definition Broadcast_bytes :: "Env \<Rightarrow> byte list \<Rightarrow> nat \<Rightarrow> ('a, Result \<times> byte list) worker" where
  "Broadcast_bytes env bs source_rank =
     then_do (Broadcast env (PBytes bs) source_rank)
       (\<lambda>(rc, p). return (rc, case p of PBytes ds \<Rightarrow> ds | _ \<Rightarrow> bs))"

definition Broadcast_elems :: "Env \<Rightarrow> 'a list \<Rightarrow> nat \<Rightarrow> ('a, Result \<times> 'a list) worker" where
  "Broadcast_elems env xs source_rank =
     then_do (Broadcast env (PElems xs) source_rank)
       (\<lambda>(rc, p). return (rc, case p of PElems ys \<Rightarrow> ys | _ \<Rightarrow> xs))"

text \<open>Modelled from the spec: \<^verbatim>\<open>Allreduce(context, buffer_view, op)\<close> of \<^verbatim>\<open>allreduce.h\<close>
  combines the view elementwise across all workers and replaces it in place with the
  combined result everywhere. The reply carries the combined elements.\<close>

definition Allreduce :: "'a list \<Rightarrow> Op \<Rightarrow> ('a, Result \<times> 'a list) worker" where
  "Allreduce view op st =
     (let st1 = emit (Call_Allreduce op view) st in
      case inbox st1 of
        [] \<Rightarrow> (Stop Blocked, st1)
      | CommError m # rest \<Rightarrow> (Ret (Fail m, view), st1\<lparr>inbox := rest\<rparr>)
      | Delivered (PElems xs) # rest \<Rightarrow>
          if length xs = length view then (Ret (Success, xs), st1\<lparr>inbox := rest\<rparr>)
          else (Stop Blocked, st1\<lparr>inbox := rest\<rparr>)
      | Delivered _ # rest \<Rightarrow> (Stop Blocked, st1\<lparr>inbox := rest\<rparr>))"

text \<open>Modelled from the spec: \<^verbatim>\<open>SafeColl(rc)\<close> of \<^verbatim>\<open>comm.h\<close> escalates a failed outcome
  to a fatal error and does nothing on success.\<close>

definition SafeColl :: "Result \<Rightarrow> ('a, unit) worker" where
  "SafeColl rc = (case rc of Success \<Rightarrow> return () | Fail m \<Rightarrow> stop (FatalColl m))"

text \<open>\<^verbatim>\<open>std::string::resize(n)\<close> and \<^verbatim>\<open>HostDeviceVector::Resize(n)\<close>: cut, or pad with
  the value-initialised element.\<close>

definition Resize :: "'e \<Rightarrow> nat \<Rightarrow> 'e list \<Rightarrow> 'e list" where
  "Resize e0 n xs = take n xs @ replicate (n - length xs) e0"

definition Fill :: "'e \<Rightarrow> 'e list \<Rightarrow> 'e list" where
  "Fill v xs = map (\<lambda>_. v) xs"

section \<open>Error-propagating apply\<close>

text \<open>\<^verbatim>\<open>detail::TryApplyWithLabels\<close>, lines 28 to 54. Line 34 assigns \<^verbatim>\<open>e.what()\<close>, a C
  string, to \<^verbatim>\<open>msg\<close>. The local variables of the chain are \<open>(msg, msg_size)\<close>.\<close>

definition TryApplyWithLabels ::
  "Env \<Rightarrow> ('s \<Rightarrow> 's completion) \<Rightarrow> 's \<Rightarrow> ('a, Result \<times> 's) worker" where
  "TryApplyWithLabels env fn s =
     then_do
       (if GetRank env = 0 then
          (\<lambda>st. case fn s of
                   Returns s' \<Rightarrow> (Ret ([], s'), emit Call_fn st)
                 | Throws (DmlcError w) s' \<Rightarrow> (Ret (c_str w, s'), emit Call_fn st)
                 | Throws e s' \<Rightarrow> (Stop (Uncaught e), emit Call_fn st))
        else return ([], s))
       (\<lambda>(msg, s').
          then_do
            (chain
              (chain
                (chain (return (Success, (msg, length msg)))
                  (\<lambda>(msg, msg_size).
                     then_do (Broadcast_size env msg_size 0)
                       (\<lambda>(rc, msg_size'). return (rc, (msg, msg_size')))))
                (\<lambda>(msg, msg_size).
                   if msg_size > 0 then
                     then_do (Broadcast_chars env (Resize (CHR 0x00) msg_size msg) 0)
                       (\<lambda>(rc, msg'). return (rc, (msg', msg_size)))
                   else return (Success, (msg, msg_size))))
              (\<lambda>(msg, msg_size).
                 if msg_size > 0 then stop (Fatal msg)
                 else return (Success, (msg, msg_size))))
            (\<lambda>(rc, _). return (rc, s')))"

section \<open>Label-aware apply\<close>

text \<open>The raw buffer overload, lines 70 to 84: \<open>buffer\<close> holds the bytes behind the
  pointer, of which the first \<open>sz\<close> (the parameter \<^verbatim>\<open>size\<close>) are broadcast.\<close>

definition ApplyWithLabels_buffer ::
  "Env \<Rightarrow> MetaInfo \<Rightarrow> byte list \<Rightarrow> nat \<Rightarrow> (byte list \<Rightarrow> byte list completion) \<Rightarrow>
     ('a, byte list) worker" where
  "ApplyWithLabels_buffer env info buffer sz fn =
     (if IsVerticalFederated info then
        then_do
          (chain (TryApplyWithLabels env fn buffer)
             (\<lambda>buffer.
                then_do (Broadcast_bytes env (take sz buffer) 0)
                  (\<lambda>(rc, received). return (rc, received @ drop sz buffer))))
          (\<lambda>(rc, buffer). then_do (SafeColl rc) (\<lambda>_. return buffer))
      else call fn buffer)"

text \<open>The \<^verbatim>\<open>HostDeviceVector<T>\<close> overload, lines 99 to 118; \<open>T0\<close> is the value-initialised
  \<^verbatim>\<open>T()\<close> that \<^verbatim>\<open>Resize\<close> pads with. The local variables of the chain are
  \<open>(result, sz)\<close>, \<open>sz\<close> standing for \<^verbatim>\<open>size\<close>.\<close>

definition ApplyWithLabels ::
  "Env \<Rightarrow> MetaInfo \<Rightarrow> 'a \<Rightarrow> 'a list \<Rightarrow> ('a list \<Rightarrow> 'a list completion) \<Rightarrow>
     ('a, 'a list) worker" where
  "ApplyWithLabels env info T0 result fn =
     (if IsVerticalFederated info then
        then_do (TryApplyWithLabels env fn result)
          (\<lambda>(rc, result).
             then_do
               (chain
                 (chain (return (rc, (result, length result)))
                   (\<lambda>(result, sz).
                      then_do (Broadcast_size env sz 0)
                        (\<lambda>(rc, sz'). return (rc, (result, sz')))))
                 (\<lambda>(result, sz).
                    then_do (record_call (Call_Resize sz))
                      (\<lambda>_. then_do (Broadcast_elems env (Resize T0 sz result) 0)
                              (\<lambda>(rc, result'). return (rc, (result', sz))))))
               (\<lambda>(rc, (result, _)). then_do (SafeColl rc) (\<lambda>_. return result)))
      else call fn result)"

section \<open>Conditional global reductions\<close>

text \<open>\<^verbatim>\<open>GlobalMax\<close>, lines 131 to 140.\<close>

definition GlobalMax :: "MetaInfo \<Rightarrow> 'a \<Rightarrow> ('a, 'a) worker" where
  "GlobalMax info v =
     (if IsRowSplit info then
        then_do (Allreduce [v] kMax)
          (\<lambda>(rc, vs). then_do (SafeColl rc) (\<lambda>_. return (case vs of x # _ \<Rightarrow> x | [] \<Rightarrow> v)))
      else return v)"

text \<open>\<^verbatim>\<open>GlobalSum\<close>, lines 153 to 160: the values are summed in place.\<close>

definition GlobalSum :: "MetaInfo \<Rightarrow> 'a list \<Rightarrow> ('a, Result \<times> 'a list) worker" where
  "GlobalSum info vs =
     (if IsRowSplit info then Allreduce vs kSum else return (Success, vs))"

text \<open>The operations \<^verbatim>\<open>GlobalRatio\<close> needs of its template type \<^verbatim>\<open>T\<close>: the test
  \<^verbatim>\<open>divisor <= 0\<close>, the division, and \<^verbatim>\<open>std::numeric_limits<T>::quiet_NaN()\<close>.\<close>

record 'a numeric =
  le_zero :: "'a \<Rightarrow> bool"
  divide_T :: "'a \<Rightarrow> 'a \<Rightarrow> 'a"
  quiet_NaN :: "'a"

text \<open>\<^verbatim>\<open>GlobalRatio\<close>, lines 174 to 185. \<^verbatim>\<open>results\<close> is a \<^verbatim>\<open>std::array<T, 2>\<close>; a
  reduction keeps the length of its view, so the last case is never taken.\<close>

definition GlobalRatio :: "'a numeric \<Rightarrow> MetaInfo \<Rightarrow> 'a \<Rightarrow> 'a \<Rightarrow> ('a, 'a) worker" where
  "GlobalRatio T info dividend divisor =
     then_do (GlobalSum info [dividend, divisor])
       (\<lambda>(rc, results).
          then_do (SafeColl rc)
            (\<lambda>_. case results of
                    [dividend, divisor] \<Rightarrow>
                      if le_zero T divisor then return (quiet_NaN T)
                      else return (divide_T T dividend divisor)
                  | _ \<Rightarrow> stop Blocked))"

section \<open>Secure gradient broadcast\<close>

text \<open>The floats behind a span of gradient pairs, as \<^verbatim>\<open>reinterpret_cast<float const*>\<close>
  with twice the length reads them.\<close>

definition as_floats :: "GradientPair list \<Rightarrow> float32 list" where
  "as_floats gs = concat (map (\<lambda>g. [grad g, hess g]) gs)"

text \<open>\<^verbatim>\<open>BroadcastGradient\<close>, lines 195 to 243. The gradient matrix \<^verbatim>\<open>out_gpair\<close> is kept
  as the vector of its pairs, \<^verbatim>\<open>out_gpair->Data()\<close>, which is all this function reads and
  writes of it. \<open>EncryptGradient\<close> is the plugin's encryption;
  \<^verbatim>\<open>SyncEncryptedGradient\<close> is opaque and only recorded. The local variables of the chain
  are \<open>(encrypted, n_bytes)\<close>.\<close>

definition BroadcastGradient ::
  "Env \<Rightarrow> MetaInfo \<Rightarrow> (float32 list \<Rightarrow> byte list) \<Rightarrow>
     (GradientPair list \<Rightarrow> GradientPair list completion) \<Rightarrow> GradientPair list \<Rightarrow>
     (GradientPair, GradientPair list) worker" where
  "BroadcastGradient env info EncryptGradient grad_fn out_gpair =
     (if IsVerticalFederated info \<and> IsEncrypted env then
        if XGBOOST_USE_FEDERATED env then
          if \<not> comm_is_FederatedComm env then stop (Uncaught BadCast)
          else
            then_do
              (if GetRank env = 0 then
                 then_do (call grad_fn out_gpair)
                   (\<lambda>out_gpair.
                      then_do (record_call (Call_EncryptGradient (as_floats out_gpair)))
                        (\<lambda>_. return (out_gpair, EncryptGradient (as_floats out_gpair))))
               else return (out_gpair, []))
              (\<lambda>(out_gpair, encrypted).
                 then_do
                   (chain
                     (chain (return (Success, (encrypted, length encrypted)))
                       (\<lambda>(encrypted, n_bytes).
                          then_do (Broadcast_size env n_bytes 0)
                            (\<lambda>(rc, n_bytes'). return (rc, (encrypted, n_bytes')))))
                     (\<lambda>(encrypted, n_bytes).
                        then_do
                          (if GetRank env \<noteq> 0 then
                             then_do (record_call (Call_Resize n_bytes))
                               (\<lambda>_. return (Resize 0 n_bytes []))
                           else return encrypted)
                          (\<lambda>encrypted.
                             then_do (Broadcast_bytes env encrypted 0)
                               (\<lambda>(rc, encrypted'). return (rc, (encrypted', n_bytes))))))
                   (\<lambda>(rc, (encrypted, _)).
                      then_do (SafeColl rc)
                        (\<lambda>_. then_do (record_call (Call_SyncEncryptedGradient encrypted))
                           (\<lambda>_. then_do (record_call Call_Fill)
                              (\<lambda>_. ApplyWithLabels env info (GradientPair 0 0)
                                      (Fill (GradientPair 0 0) out_gpair) grad_fn)))))
        else stop FatalNoFederated
      else ApplyWithLabels env info (GradientPair 0 0) out_gpair grad_fn)"

section \<open>Observations on a run\<close>

text \<open>The collective calls of a trace, without the data they carried.\<close>

datatype collective = BroadcastCall | AllreduceCall Op

fun collective_calls :: "'a event list \<Rightarrow> collective list" where
  "collective_calls [] = []"
| "collective_calls (Call_Broadcast _ # es) = BroadcastCall # collective_calls es"
| "collective_calls (Call_Allreduce op _ # es) = AllreduceCall op # collective_calls es"
| "collective_calls (_ # es) = collective_calls es"

text \<open>How often the function object was evaluated, and how often the plugin was handed
  a payload to synchronise.\<close>

definition fn_calls :: "'a event list \<Rightarrow> nat" where
  "fn_calls tr = length (filter (\<lambda>e. e = Call_fn) tr)"

fun is_sync :: "'a event \<Rightarrow> bool" where
  "is_sync (Call_SyncEncryptedGradient _) = True"
| "is_sync _ = False"

definition sync_calls :: "'a event list \<Rightarrow> nat" where
  "sync_calls tr = length (filter is_sync tr)"

text \<open>Modelled from the spec: \<^verbatim>\<open>Broadcast\<close> copies the contents of the source rank's
  view to every other worker. The views the leader handed to its \<^verbatim>\<open>Broadcast\<close> calls, in
  order, are therefore the replies a follower of the same run receives.\<close>

fun sent :: "'a event list \<Rightarrow> 'a payload list" where
  "sent [] = []"
| "sent (Call_Broadcast p # es) = p # sent es"
| "sent (_ # es) = sent es"

definition heard :: "'a event list \<Rightarrow> 'a reply list" where
  "heard tr = map Delivered (sent tr)"

definition fresh :: "'a reply list \<Rightarrow> 'a net" where
  "fresh replies = \<lparr>inbox = replies, trace = []\<rparr>"

text \<open>Two workers of a federated build with encryption on, for worked examples.\<close>

definition leader_env :: Env where
  "leader_env = \<lparr>GetRank = 0, IsEncrypted = True, XGBOOST_USE_FEDERATED = True,
                  comm_is_FederatedComm = True\<rparr>"

definition follower_env :: Env where
  "follower_env = \<lparr>GetRank = 1, IsEncrypted = True, XGBOOST_USE_FEDERATED = True,
                    comm_is_FederatedComm = True\<rparr>"

section \<open>Instances of the numeric template type\<close>

text \<open>Signed and unsigned integral \<^verbatim>\<open>T\<close> of any width: \<^verbatim>\<open>/\<close> truncates towards zero,
  and \<^verbatim>\<open>std::numeric_limits<T>::quiet_NaN()\<close> of a type without a NaN is \<^verbatim>\<open>T()\<close>,
  that is \<open>0\<close>.\<close>

definition signed_T :: "'n::len word numeric" where
  "signed_T =
     \<lparr>le_zero = (\<lambda>v. sint v \<le> 0),
      divide_T = (\<lambda>a b. word_of_int (sint a sdiv sint b)),
      quiet_NaN = 0\<rparr>"

definition unsigned_T :: "'n::len word numeric" where
  "unsigned_T =
     \<lparr>le_zero = (\<lambda>v. v \<le> 0),
      divide_T = (\<lambda>a b. a div b),
      quiet_NaN = 0\<rparr>"

text \<open>An integral \<^verbatim>\<open>T\<close> wide enough for the values of the worked examples, so that no
  wrap-around is involved.\<close>

definition int_T :: "int numeric" where
  "int_T = \<lparr>le_zero = (\<lambda>v. v \<le> 0), divide_T = (\<lambda>a b. a sdiv b), quiet_NaN = 0\<rparr>"

text \<open>A floating-point \<^verbatim>\<open>T\<close> for worked examples: the finite values as rationals and the
  NaN. Rounding, signed zero and the infinities are left out; a comparison with NaN is
  false and an operation on NaN is NaN. \<^verbatim>\<open>GlobalRatio\<close> divides only when the test
  \<^verbatim>\<open>divisor <= 0\<close> failed, so the quotient by zero is never taken; it is set to \<open>NaN\<close>.\<close>

datatype fp = Finite rat | NaN

definition floating_T :: "fp numeric" where
  "floating_T =
     \<lparr>le_zero = (\<lambda>v. case v of Finite q \<Rightarrow> q \<le> 0 | NaN \<Rightarrow> False),
      divide_T = (\<lambda>a b. case (a, b) of
                     (Finite p, Finite q) \<Rightarrow> if q = 0 then NaN else Finite (p / q)
                   | _ \<Rightarrow> NaN),
      quiet_NaN = NaN\<rparr>"

section \<open>Basic facts\<close>

lemmas worker_defs = then_do_def chain_def return_def stop_def record_call_def emit_def call_def

lemmas bcast_defs = Broadcast_def Broadcast_size_def Broadcast_chars_def Broadcast_bytes_def
  Broadcast_elems_def

lemma collective_calls_append:
  "collective_calls (xs @ ys) = collective_calls xs @ collective_calls ys"
  by (induction xs rule: collective_calls.induct) simp_all

lemma fn_calls_append: "fn_calls (xs @ ys) = fn_calls xs + fn_calls ys"
  by (simp add: fn_calls_def)

lemma sync_calls_append: "sync_calls (xs @ ys) = sync_calls xs + sync_calls ys"
  by (simp add: sync_calls_def)

section \<open>Capability error\<close>

text \<open>
  Claim C6. When \<^verbatim>\<open>BroadcastGradient\<close> is called in vertical-federated mode with
  encryption on, in a build without \<^verbatim>\<open>XGBOOST_USE_FEDERATED\<close>, the call stops at once
  with the fatal report of \<^verbatim>\<open>error::NoFederated()\<close>: the communication state is the one
  at entry, so no \<^verbatim>\<open>Broadcast\<close> or \<^verbatim>\<open>Allreduce\<close> was issued, no reply was consumed and
  the gradient function was not evaluated; in particular the call is not the plaintext
  path \<^verbatim>\<open>ApplyWithLabels\<close>.
\<close>

theorem BroadcastGradient_no_federated:
  assumes "IsVerticalFederated info" and "IsEncrypted env"
    and "\<not> XGBOOST_USE_FEDERATED env"
  shows "BroadcastGradient env info EncryptGradient grad_fn out_gpair st
           = (Stop FatalNoFederated, st)"
  using assms by (simp add: BroadcastGradient_def stop_def)

theorem BroadcastGradient_no_federated_witness:
  "BroadcastGradient
     \<lparr>GetRank = 0, IsEncrypted = True, XGBOOST_USE_FEDERATED = False,
      comm_is_FederatedComm = False\<rparr>
     VerticalFederated (\<lambda>fs. []) (\<lambda>g. Returns [GradientPair 1 2]) [GradientPair 7 7]
     (fresh [Delivered (PSize 0)])
   = (Stop FatalNoFederated, fresh [Delivered (PSize 0)])
   \<and> collective_calls (trace (fresh [Delivered (PSize 0) :: GradientPair reply])) = []
   \<and> ApplyWithLabels
       \<lparr>GetRank = 0, IsEncrypted = True, XGBOOST_USE_FEDERATED = False,
        comm_is_FederatedComm = False\<rparr>
       VerticalFederated (GradientPair 0 0) [GradientPair 7 7]
       (\<lambda>g. Returns [GradientPair 1 2]) (fresh [Delivered (PSize 0)])
     \<noteq> (Stop FatalNoFederated, fresh [Delivered (PSize 0)])"
  using BroadcastGradient_no_federated
    [of VerticalFederated
      "\<lparr>GetRank = 0, IsEncrypted = True, XGBOOST_USE_FEDERATED = False,
        comm_is_FederatedComm = False\<rparr>"
      "\<lambda>fs. []" "\<lambda>g. Returns [GradientPair 1 2]" "[GradientPair 7 7]"
      "fresh [Delivered (PSize 0)]"]
  by (simp add: IsVerticalFederated_def fresh_def ApplyWithLabels_def TryApplyWithLabels_def
      worker_defs bcast_defs)

section \<open>Conditional global reductions: when a collective is issued\<close>

lemma Allreduce_trace: "trace (snd (Allreduce vs op st)) = trace st @ [Call_Allreduce op vs]"
  by (simp add: Allreduce_def Let_def emit_def split: list.split reply.split payload.split)

lemma Allreduce_delivered:
  "inbox st = Delivered (PElems ws) # rest \<Longrightarrow> length ws = length vs \<Longrightarrow>
     Allreduce vs op st
       = (Ret (Success, ws), st\<lparr>inbox := rest, trace := trace st @ [Call_Allreduce op vs]\<rparr>)"
  by (simp add: Allreduce_def Let_def emit_def)

lemma GlobalMax_trace:
  "IsRowSplit info \<Longrightarrow> trace (snd (GlobalMax info v st)) = trace st @ [Call_Allreduce kMax [v]]"
  using Allreduce_trace [of "[v]" kMax st]
  by (cases "Allreduce [v] kMax st")
    (auto simp: GlobalMax_def then_do_def SafeColl_def return_def stop_def
      split: outcome.split Result.split)

lemma GlobalRatio_trace:
  "IsRowSplit info \<Longrightarrow>
     trace (snd (GlobalRatio T info x y st)) = trace st @ [Call_Allreduce kSum [x, y]]"
  using Allreduce_trace [of "[x, y]" kSum st]
  by (cases "Allreduce [x, y] kSum st")
    (auto simp: GlobalRatio_def GlobalSum_def then_do_def SafeColl_def return_def stop_def
      split: outcome.split Result.split list.split)

text \<open>
  Claim C4. \<^verbatim>\<open>GlobalMax\<close>, \<^verbatim>\<open>GlobalSum\<close> and \<^verbatim>\<open>GlobalRatio\<close> issue their reduction
  exactly when the partition mode is row-split. In every other mode the communication
  state is left as it was (no collective call, no reply consumed), \<^verbatim>\<open>GlobalMax\<close> returns
  its input, \<^verbatim>\<open>GlobalSum\<close> leaves the values as they were and \<^verbatim>\<open>GlobalRatio\<close> returns the
  ratio of its two local inputs. In row-split mode each of them issues exactly one
  \<^verbatim>\<open>Allreduce\<close> over its input (maximum for \<^verbatim>\<open>GlobalMax\<close>, sum for the other two), and
  a delivered reduction is what \<^verbatim>\<open>GlobalMax\<close> returns and \<^verbatim>\<open>GlobalSum\<close> stores.
\<close>

theorem reductions_only_when_row_split:
  "(\<not> IsRowSplit info \<longrightarrow>
      GlobalMax info v st = (Ret v, st)
    \<and> GlobalSum info vs st = (Ret (Success, vs), st)
    \<and> GlobalRatio T info x y st
        = (Ret (if le_zero T y then quiet_NaN T else divide_T T x y), st))
   \<and> (IsRowSplit info \<longrightarrow>
      trace (snd (GlobalMax info v st)) = trace st @ [Call_Allreduce kMax [v]]
    \<and> trace (snd (GlobalSum info vs st)) = trace st @ [Call_Allreduce kSum vs]
    \<and> trace (snd (GlobalRatio T info x y st)) = trace st @ [Call_Allreduce kSum [x, y]]
    \<and> (\<forall>m rest. inbox st = Delivered (PElems [m]) # rest \<longrightarrow>
          fst (GlobalMax info v st) = Ret m)
    \<and> (\<forall>ws rest. inbox st = Delivered (PElems ws) # rest \<longrightarrow> length ws = length vs \<longrightarrow>
          fst (GlobalSum info vs st) = Ret (Success, ws)))"
proof (intro conjI impI allI)
  assume "\<not> IsRowSplit info"
  then show "GlobalMax info v st = (Ret v, st)"
    by (simp add: GlobalMax_def return_def)
  from \<open>\<not> IsRowSplit info\<close> show "GlobalSum info vs st = (Ret (Success, vs), st)"
    by (simp add: GlobalSum_def return_def)
  from \<open>\<not> IsRowSplit info\<close>
  show "GlobalRatio T info x y st
          = (Ret (if le_zero T y then quiet_NaN T else divide_T T x y), st)"
    by (simp add: GlobalRatio_def GlobalSum_def SafeColl_def then_do_def return_def)
next
  assume "IsRowSplit info"
  then show "trace (snd (GlobalMax info v st)) = trace st @ [Call_Allreduce kMax [v]]"
    by (rule GlobalMax_trace)
  from \<open>IsRowSplit info\<close>
  show "trace (snd (GlobalSum info vs st)) = trace st @ [Call_Allreduce kSum vs]"
    by (simp add: GlobalSum_def Allreduce_trace)
  from \<open>IsRowSplit info\<close>
  show "trace (snd (GlobalRatio T info x y st)) = trace st @ [Call_Allreduce kSum [x, y]]"
    by (rule GlobalRatio_trace)
next
  fix m rest
  assume "IsRowSplit info" and "inbox st = Delivered (PElems [m]) # rest"
  then show "fst (GlobalMax info v st) = Ret m"
    by (simp add: GlobalMax_def Allreduce_delivered then_do_def SafeColl_def return_def)
next
  fix ws rest
  assume "IsRowSplit info" and "inbox st = Delivered (PElems ws) # rest"
    and "length ws = length vs"
  then show "fst (GlobalSum info vs st) = Ret (Success, ws)"
    by (simp add: GlobalSum_def Allreduce_delivered)
qed

theorem reductions_only_when_row_split_witness:
  "GlobalMax VerticalFederated (7::int) (fresh [Delivered (PElems [9])])
     = (Ret 7, fresh [Delivered (PElems [9])])
   \<and> GlobalSum VerticalPlain [1, 2::int] (fresh [Delivered (PElems [4, 6])])
     = (Ret (Success, [1, 2]), fresh [Delivered (PElems [4, 6])])
   \<and> GlobalRatio floating_T VerticalPlain (Finite 6) (Finite 2) (fresh [])
     = (Ret (Finite 3), fresh [])
   \<and> trace (snd (GlobalMax RowSplit (7::int) (fresh [Delivered (PElems [9])])))
     = [Call_Allreduce kMax [7]]
   \<and> collective_calls (trace (snd (GlobalSum RowSplit [1, 2::int] (fresh [])))) = [AllreduceCall kSum]
   \<and> fst (GlobalMax RowSplit (7::int) (fresh [Delivered (PElems [9])])) = Ret 9
   \<and> fst (GlobalSum RowSplit [1, 2::int] (fresh [Delivered (PElems [4, 6])]))
     = Ret (Success, [4, 6])"
  using
    reductions_only_when_row_split
      [of VerticalFederated "7::int" "fresh [Delivered (PElems [9])]" "[]" int_T 0 0]
    reductions_only_when_row_split
      [of VerticalPlain "0::int" "fresh [Delivered (PElems [4, 6])]" "[1, 2]" int_T 0 0]
    reductions_only_when_row_split
      [of VerticalPlain "NaN" "fresh []" "[]" floating_T "Finite 6" "Finite 2"]
    reductions_only_when_row_split
      [of RowSplit "7::int" "fresh [Delivered (PElems [9])]" "[]" int_T 0 0]
    reductions_only_when_row_split
      [of RowSplit "0::int" "fresh []" "[1, 2]" int_T 0 0]
    reductions_only_when_row_split
      [of RowSplit "0::int" "fresh [Delivered (PElems [4, 6])]" "[1, 2]" int_T 0 0]
  by (simp add: IsRowSplit_def fresh_def floating_T_def int_T_def)

section \<open>The global ratio\<close>

text \<open>
  Claim C3. \<^verbatim>\<open>GlobalRatio\<close> hands the pair (dividend, divisor) to \<^verbatim>\<open>GlobalSum\<close>; with
  \<open>(X, Y)\<close> the pair that comes back (the delivered sums in row-split mode, the local
  pair itself in every other mode), it returns \<^verbatim>\<open>quiet_NaN()\<close> when \<open>Y \<le> 0\<close> and
  \<open>X / Y\<close> otherwise, for every type \<^verbatim>\<open>T\<close> and all inputs.
\<close>

theorem GlobalRatio_of_summed_pair:
  assumes "GlobalSum info [x, y] st = (Ret (Success, [X, Y]), st')"
  shows "GlobalRatio T info x y st
           = (Ret (if le_zero T Y then quiet_NaN T else divide_T T X Y), st')
         \<and> (\<not> IsRowSplit info \<longrightarrow> X = x \<and> Y = y \<and> st' = st)
         \<and> (IsRowSplit info \<longrightarrow> inbox st = Delivered (PElems [X, Y]) # inbox st')"
proof (intro conjI impI)
  show "GlobalRatio T info x y st
          = (Ret (if le_zero T Y then quiet_NaN T else divide_T T X Y), st')"
    using assms by (simp add: GlobalRatio_def then_do_def SafeColl_def return_def)
next
  assume "\<not> IsRowSplit info"
  with assms show "X = x" and "Y = y" and "st' = st"
    by (simp_all add: GlobalSum_def return_def)
next
  assume "IsRowSplit info"
  with assms show "inbox st = Delivered (PElems [X, Y]) # inbox st'"
    by (auto simp: GlobalSum_def Allreduce_def Let_def emit_def
        split: list.splits reply.splits payload.splits if_splits)
qed

text \<open>The examples of the claim, in a vertical configuration and with a single row-split
  worker (whose reduction delivers its own pair).\<close>

theorem GlobalRatio_of_summed_pair_witness:
  "GlobalRatio floating_T VerticalPlain (Finite 5) (Finite 0) (fresh []) = (Ret NaN, fresh [])
   \<and> GlobalRatio floating_T VerticalPlain (Finite 5) (Finite (- 3)) (fresh [])
       = (Ret NaN, fresh [])
   \<and> GlobalRatio floating_T VerticalPlain (Finite 6) (Finite 2) (fresh [])
       = (Ret (Finite 3), fresh [])
   \<and> fst (GlobalRatio floating_T RowSplit (Finite 6) (Finite 2)
            (fresh [Delivered (PElems [Finite 6, Finite 2])])) = Ret (Finite 3)
   \<and> fst (GlobalRatio floating_T RowSplit (Finite 5) (Finite 0)
            (fresh [Delivered (PElems [Finite 5, Finite 0])])) = Ret NaN"
  using
    GlobalRatio_of_summed_pair
      [of VerticalPlain "Finite 5" "Finite 0" "fresh []" "Finite 5" "Finite 0" "fresh []"
        floating_T]
    GlobalRatio_of_summed_pair
      [of VerticalPlain "Finite 5" "Finite (- 3)" "fresh []" "Finite 5" "Finite (- 3)"
        "fresh []" floating_T]
    GlobalRatio_of_summed_pair
      [of VerticalPlain "Finite 6" "Finite 2" "fresh []" "Finite 6" "Finite 2" "fresh []"
        floating_T]
    GlobalRatio_of_summed_pair
      [of RowSplit "Finite 6" "Finite 2" "fresh [Delivered (PElems [Finite 6, Finite 2])]"
        "Finite 6" "Finite 2"
        "\<lparr>inbox = [], trace = [Call_Allreduce kSum [Finite 6, Finite 2]]\<rparr>" floating_T]
    GlobalRatio_of_summed_pair
      [of RowSplit "Finite 5" "Finite 0" "fresh [Delivered (PElems [Finite 5, Finite 0])]"
        "Finite 5" "Finite 0"
        "\<lparr>inbox = [], trace = [Call_Allreduce kSum [Finite 5, Finite 0]]\<rparr>" floating_T]
  by (simp add: GlobalSum_def Allreduce_def IsRowSplit_def fresh_def floating_T_def
      return_def emit_def)

text \<open>
  Claim C10. For an integral \<^verbatim>\<open>T\<close> the value of
  \<^verbatim>\<open>std::numeric_limits<T>::quiet_NaN()\<close> is \<open>0\<close>, so \<^verbatim>\<open>GlobalRatio\<close> returns \<open>0\<close> for
  every dividend whenever the divisor is \<open>\<le> 0\<close>, both in a configuration that is not
  row-split and for a single row-split worker, whose reduction delivers its own pair.
\<close>

theorem GlobalRatio_integral_nonpositive_divisor:
  "(sint y \<le> 0 \<longrightarrow> \<not> IsRowSplit info \<longrightarrow>
      GlobalRatio signed_T info x y st = (Ret 0, st))
   \<and> (sint y \<le> 0 \<longrightarrow> IsRowSplit info \<longrightarrow> inbox st = Delivered (PElems [x, y]) # rest \<longrightarrow>
      fst (GlobalRatio signed_T info x y st) = Ret 0)
   \<and> (y \<le> 0 \<longrightarrow> \<not> IsRowSplit info \<longrightarrow>
      GlobalRatio unsigned_T info x y st = (Ret 0, st))
   \<and> (y \<le> 0 \<longrightarrow> IsRowSplit info \<longrightarrow> inbox st = Delivered (PElems [x, y]) # rest \<longrightarrow>
      fst (GlobalRatio unsigned_T info x y st) = Ret 0)"
  by (simp add: GlobalRatio_def GlobalSum_def Allreduce_delivered then_do_def SafeColl_def
      return_def signed_T_def unsigned_T_def)

theorem GlobalRatio_integral_nonpositive_divisor_witness:
  "GlobalRatio signed_T VerticalPlain (5 :: 32 word) (- 3) (fresh []) = (Ret 0, fresh [])
   \<and> GlobalRatio signed_T VerticalPlain (5 :: 32 word) 0 (fresh []) = (Ret 0, fresh [])
   \<and> fst (GlobalRatio signed_T RowSplit (5 :: 32 word) (- 3)
            (fresh [Delivered (PElems [5, - 3])])) = Ret 0
   \<and> GlobalRatio unsigned_T VerticalFederated (5 :: 64 word) 0 (fresh []) = (Ret 0, fresh [])
   \<and> fst (GlobalRatio unsigned_T RowSplit (5 :: 64 word) 0
            (fresh [Delivered (PElems [5, 0])])) = Ret 0"
  using
    GlobalRatio_integral_nonpositive_divisor
      [of "- 3 :: 32 word" VerticalPlain 5 "fresh []" "[]"]
    GlobalRatio_integral_nonpositive_divisor
      [of "0 :: 32 word" VerticalPlain 5 "fresh []" "[]"]
    GlobalRatio_integral_nonpositive_divisor
      [of "- 3 :: 32 word" RowSplit 5 "fresh [Delivered (PElems [5, - 3])]" "[]"]
    GlobalRatio_integral_nonpositive_divisor
      [of "0 :: 64 word" VerticalFederated 5 "fresh []" "[]"]
    GlobalRatio_integral_nonpositive_divisor
      [of "0 :: 64 word" RowSplit 5 "fresh [Delivered (PElems [5, 0])]" "[]"]
  by (simp add: IsRowSplit_def fresh_def)

section \<open>Error-propagating apply: what each worker does\<close>

lemma TryApply_leader_returns:
  assumes "GetRank env = 0" and "fn s = Returns s'"
  shows "TryApplyWithLabels env fn s \<lparr>inbox = Delivered p # rest, trace = tr\<rparr>
           = (Ret (Success, s'),
              \<lparr>inbox = rest, trace = tr @ [Call_fn, Call_Broadcast (PSize 0)]\<rparr>)"
  using assms by (simp add: TryApplyWithLabels_def worker_defs bcast_defs)

lemma c_str_without_NUL: "CHR 0x00 \<notin> set m \<Longrightarrow> c_str m = m"
  by (auto simp: c_str_def takeWhile_eq_all_conv)

lemma TryApply_leader_empty_message:
  assumes "GetRank env = 0" and "fn s = Throws (DmlcError w) s'" and "c_str w = []"
  shows "TryApplyWithLabels env fn s \<lparr>inbox = Delivered p # rest, trace = tr\<rparr>
           = (Ret (Success, s'),
              \<lparr>inbox = rest, trace = tr @ [Call_fn, Call_Broadcast (PSize 0)]\<rparr>)"
  using assms by (simp add: TryApplyWithLabels_def worker_defs bcast_defs)

lemma TryApply_leader_throws:
  assumes "GetRank env = 0" and "fn s = Throws (DmlcError w) s'" and "c_str w \<noteq> []"
  shows "TryApplyWithLabels env fn s \<lparr>inbox = Delivered p # Delivered q # rest, trace = tr\<rparr>
           = (Stop (Fatal (c_str w)),
              \<lparr>inbox = rest,
               trace = tr @ [Call_fn, Call_Broadcast (PSize (length (c_str w))),
                             Call_Broadcast (PChars (c_str w))]\<rparr>)"
  using assms by (simp add: TryApplyWithLabels_def worker_defs bcast_defs Resize_def)

lemma TryApply_leader_uncaught:
  assumes "GetRank env = 0" and "fn s = Throws e s'" and "\<forall>m. e \<noteq> DmlcError m"
  shows "TryApplyWithLabels env fn s \<lparr>inbox = ib, trace = tr\<rparr>
           = (Stop (Uncaught e), \<lparr>inbox = ib, trace = tr @ [Call_fn]\<rparr>)"
  using assms by (cases e) (simp_all add: TryApplyWithLabels_def worker_defs)

lemma TryApply_follower_success:
  assumes "GetRank env \<noteq> 0"
  shows "TryApplyWithLabels env fn s \<lparr>inbox = Delivered (PSize 0) # rest, trace = tr\<rparr>
           = (Ret (Success, s),
              \<lparr>inbox = rest, trace = tr @ [Call_Broadcast (PSize 0)]\<rparr>)"
  using assms by (simp add: TryApplyWithLabels_def worker_defs bcast_defs)

lemma TryApply_follower_fatal:
  assumes "GetRank env \<noteq> 0" and "m \<noteq> []"
  shows "TryApplyWithLabels env fn s
           \<lparr>inbox = Delivered (PSize (length m)) # Delivered (PChars m) # rest, trace = tr\<rparr>
           = (Stop (Fatal m),
              \<lparr>inbox = rest,
               trace = tr @ [Call_Broadcast (PSize 0),
                             Call_Broadcast (PChars (replicate (length m) (CHR 0x00)))]\<rparr>)"
  using assms by (simp add: TryApplyWithLabels_def worker_defs bcast_defs Resize_def)

lemma TryApply_follower_ignores_fn:
  assumes "GetRank env \<noteq> 0"
  shows "TryApplyWithLabels env fn s st = TryApplyWithLabels env fn' s st"
  using assms by (simp add: TryApplyWithLabels_def)

lemma Broadcast_no_fn: "fn_calls (trace (snd (Broadcast env view r st))) = fn_calls (trace st)"
  by (simp add: Broadcast_def Let_def emit_def fn_calls_def
      split: list.split reply.split)

lemma TryApply_follower_no_fn:
  assumes "GetRank env \<noteq> 0"
  shows "fn_calls (trace (snd (TryApplyWithLabels env fn s st))) = fn_calls (trace st)"
proof -
  obtain o1 st1 where b1: "Broadcast env (PSize 0) 0 st = (o1, st1)"
    by (cases "Broadcast env (PSize 0) 0 st")
  have t1: "fn_calls (trace st1) = fn_calls (trace st)"
    using Broadcast_no_fn [of env "PSize 0" 0 st] b1 by simp
  show ?thesis
  proof (cases o1)
    case (Stop h)
    with assms b1 t1 show ?thesis
      by (simp add: TryApplyWithLabels_def worker_defs Broadcast_size_def)
  next
    case (Ret r)
    obtain rc p where r: "r = (rc, p)" by (cases r)
    show ?thesis
    proof (cases "rc = Success \<and> (case p of PSize k \<Rightarrow> k | _ \<Rightarrow> 0) > 0")
      case False
      with assms b1 t1 Ret r show ?thesis
        by (auto simp: TryApplyWithLabels_def worker_defs Broadcast_size_def)
    next
      case True
      define k where "k = (case p of PSize k \<Rightarrow> k | _ \<Rightarrow> 0)"
      obtain o2 st2 where b2:
        "Broadcast env (PChars (Resize (CHR 0x00) k [])) 0 st1 = (o2, st2)"
        by (cases "Broadcast env (PChars (Resize (CHR 0x00) k [])) 0 st1")
      have t2: "fn_calls (trace st2) = fn_calls (trace st1)"
        using Broadcast_no_fn [of env "PChars (Resize (CHR 0x00) k [])" 0 st1] b2 by simp
      from assms b1 t1 Ret r True b2 t2 show ?thesis
        by (cases o2)
          (auto simp: TryApplyWithLabels_def then_do_def chain_def return_def stop_def
            Broadcast_size_def Broadcast_chars_def k_def)
    qed
  qed
qed

lemma TryApply_leader_success_only_if:
  assumes "GetRank env = 0" and "fst (TryApplyWithLabels env fn s st) = Ret (Success, s')"
  shows "fn s = Returns s' \<or> (\<exists>w. fn s = Throws (DmlcError w) s' \<and> c_str w = [])"
proof (cases "fn s")
  case (Returns s1)
  with assms show ?thesis
    by (auto simp: TryApplyWithLabels_def worker_defs bcast_defs Let_def
        split: list.splits reply.splits if_splits)
next
  case (Throws e s1)
  show ?thesis
  proof (cases e)
    case (DmlcError m)
    show ?thesis
    proof (cases "c_str m = []")
      case True
      with assms Throws DmlcError show ?thesis
        by (auto simp: TryApplyWithLabels_def worker_defs bcast_defs Let_def
            split: list.splits reply.splits if_splits)
    next
      case False
      with assms Throws DmlcError show ?thesis
        by (auto simp: TryApplyWithLabels_def worker_defs bcast_defs Let_def Resize_def
            split: list.splits reply.splits if_splits)
    qed
  next
    case (OtherException w)
    with assms Throws show ?thesis
      by (simp add: TryApplyWithLabels_def worker_defs)
  next
    case BadCast
    with assms Throws show ?thesis
      by (simp add: TryApplyWithLabels_def worker_defs)
  qed
qed

section \<open>Error-propagating apply: agreement of the workers\<close>

text \<open>
  Claim C2, as the code has it. \<^verbatim>\<open>TryApplyWithLabels\<close> evaluates \<open>fn\<close> on the leader
  only (once there, never on a follower). A \<^verbatim>\<open>dmlc::Error\<close> raised by that evaluation is
  caught and the C string of its \<^verbatim>\<open>what()\<close>, the message up to its first NUL character,
  is kept. With the leader's broadcasts succeeding and every follower receiving what the
  leader broadcast: if \<open>fn\<close> returned, the leader and the follower return \<open>Success\<close>; if
  \<open>fn\<close> raised a \<^verbatim>\<open>dmlc::Error\<close> whose C string is not empty, the leader and the follower
  both stop with the fatal error carrying that C string. A \<open>Success\<close> on the leader
  implies that \<open>fn\<close> returned or raised a \<^verbatim>\<open>dmlc::Error\<close> whose C string is empty.
\<close>

theorem TryApplyWithLabels_unanimous:
  assumes "GetRank leader = 0" and "GetRank follower \<noteq> 0"
    and "L = TryApplyWithLabels leader fn s (fresh (Delivered p # Delivered q # rest))"
    and "F = TryApplyWithLabels follower fn' t (fresh (heard (trace (snd L))))"
  shows "(fn s = Returns s' \<longrightarrow> fst L = Ret (Success, s') \<and> fst F = Ret (Success, t))
       \<and> (fn s = Throws (DmlcError m) s' \<longrightarrow> c_str m \<noteq> [] \<longrightarrow>
            fst L = Stop (Fatal (c_str m)) \<and> fst F = Stop (Fatal (c_str m)))
       \<and> (fst L = Ret (Success, s') \<longrightarrow>
            fn s = Returns s' \<or> (\<exists>w. fn s = Throws (DmlcError w) s' \<and> c_str w = []))
       \<and> fn_calls (trace (snd L)) = 1
       \<and> fn_calls (trace (snd F)) = 0"
proof -
  have l_ret: "fn s = Returns s1 \<Longrightarrow>
      L = (Ret (Success, s1),
           \<lparr>inbox = Delivered q # rest, trace = [Call_fn, Call_Broadcast (PSize 0)]\<rparr>)" for s1
    using assms(1,3) by (simp add: fresh_def TryApply_leader_returns)
  have l_empty: "fn s = Throws (DmlcError w) s1 \<Longrightarrow> c_str w = [] \<Longrightarrow>
      L = (Ret (Success, s1),
           \<lparr>inbox = Delivered q # rest, trace = [Call_fn, Call_Broadcast (PSize 0)]\<rparr>)"
    for w s1
    using assms(1,3) TryApply_leader_empty_message [of leader fn s w s1 p "Delivered q # rest" "[]"]
    by (simp add: fresh_def)
  have l_thr: "fn s = Throws (DmlcError w) s1 \<Longrightarrow> c_str w \<noteq> [] \<Longrightarrow>
      L = (Stop (Fatal (c_str w)),
           \<lparr>inbox = rest,
            trace = [Call_fn, Call_Broadcast (PSize (length (c_str w))),
                     Call_Broadcast (PChars (c_str w))]\<rparr>)"
    for w s1
    using assms(1,3) TryApply_leader_throws [of leader fn s w s1 p q rest "[]"]
    by (simp add: fresh_def)
  have l_unc: "fn s = Throws e s1 \<Longrightarrow> \<forall>w. e \<noteq> DmlcError w \<Longrightarrow>
      L = (Stop (Uncaught e),
           \<lparr>inbox = Delivered p # Delivered q # rest, trace = [Call_fn]\<rparr>)" for e s1
    using assms(1,3) by (simp add: fresh_def TryApply_leader_uncaught)
  have c1: "fn s = Returns s' \<longrightarrow> fst L = Ret (Success, s') \<and> fst F = Ret (Success, t)"
  proof
    assume ret: "fn s = Returns s'"
    from l_ret [OF ret] have h: "heard (trace (snd L)) = [Delivered (PSize 0)]"
      by (simp add: heard_def)
    have "fst F = Ret (Success, t)"
      using assms(2,4) by (simp add: h fresh_def TryApply_follower_success)
    with l_ret [OF ret] show "fst L = Ret (Success, s') \<and> fst F = Ret (Success, t)" by simp
  qed
  have c2: "fn s = Throws (DmlcError m) s' \<longrightarrow> c_str m \<noteq> [] \<longrightarrow>
              fst L = Stop (Fatal (c_str m)) \<and> fst F = Stop (Fatal (c_str m))"
  proof (intro impI)
    assume thr: "fn s = Throws (DmlcError m) s'" and ne: "c_str m \<noteq> []"
    from l_thr [OF thr ne]
    have h: "heard (trace (snd L))
               = [Delivered (PSize (length (c_str m))), Delivered (PChars (c_str m))]"
      by (simp add: heard_def)
    have "fst F = Stop (Fatal (c_str m))"
      using assms(2,4) ne by (simp add: h fresh_def TryApply_follower_fatal)
    with l_thr [OF thr ne]
    show "fst L = Stop (Fatal (c_str m)) \<and> fst F = Stop (Fatal (c_str m))" by simp
  qed
  have c3: "fst L = Ret (Success, s') \<longrightarrow>
              fn s = Returns s' \<or> (\<exists>w. fn s = Throws (DmlcError w) s' \<and> c_str w = [])"
  proof
    assume "fst L = Ret (Success, s')"
    then have "fst (TryApplyWithLabels leader fn s (fresh (Delivered p # Delivered q # rest)))
                 = Ret (Success, s')"
      by (simp only: assms(3))
    then show "fn s = Returns s' \<or> (\<exists>w. fn s = Throws (DmlcError w) s' \<and> c_str w = [])"
      by (rule TryApply_leader_success_only_if [OF assms(1)])
  qed
  have c4: "fn_calls (trace (snd L)) = 1"
  proof (cases "fn s")
    case (Returns s1)
    from l_ret [OF this] show ?thesis by (simp add: fn_calls_def)
  next
    case (Throws e s1)
    show ?thesis
    proof (cases "\<exists>w. e = DmlcError w")
      case False
      with l_unc [OF Throws] show ?thesis by (simp add: fn_calls_def)
    next
      case True
      then obtain w where w: "e = DmlcError w" by blast
      show ?thesis
      proof (cases "c_str w = []")
        case True
        with Throws w l_empty [of w s1] show ?thesis by (simp add: fn_calls_def)
      next
        case False
        with Throws w l_thr [of w s1] show ?thesis by (simp add: fn_calls_def)
      qed
    qed
  qed
  have c5: "fn_calls (trace (snd F)) = 0"
    using assms(2,4) TryApply_follower_no_fn [of follower fn' t "fresh (heard (trace (snd L)))"]
    by (simp add: fresh_def fn_calls_def)
  show ?thesis
    by (rule conjI [OF c1 conjI [OF c2 conjI [OF c3 conjI [OF c4 c5]]]])
qed

text \<open>A leader whose function raises \<^verbatim>\<open>dmlc::Error("boom")\<close>, a leader whose function
  returns, and a follower of each; and a leader whose function raises a \<^verbatim>\<open>dmlc::Error\<close>
  with the message \<open>a\<close>, NUL, \<open>b\<close>, of which \<open>a\<close> is reported.\<close>

theorem TryApplyWithLabels_unanimous_witness:
  "fst (TryApplyWithLabels
         \<lparr>GetRank = 0, IsEncrypted = False, XGBOOST_USE_FEDERATED = True,
          comm_is_FederatedComm = True\<rparr>
         (\<lambda>s. Throws (DmlcError ''boom'') s) (3::nat)
         (fresh [Delivered (PSize 0), Delivered (PSize 0) :: nat reply])) = Stop (Fatal ''boom'')
   \<and> fst (TryApplyWithLabels
         \<lparr>GetRank = 2, IsEncrypted = False, XGBOOST_USE_FEDERATED = True,
          comm_is_FederatedComm = True\<rparr>
         (\<lambda>s. Returns s) (4::nat)
         (fresh [Delivered (PSize 4), Delivered (PChars ''boom'') :: nat reply]))
       = Stop (Fatal ''boom'')
   \<and> fst (TryApplyWithLabels
         \<lparr>GetRank = 0, IsEncrypted = False, XGBOOST_USE_FEDERATED = True,
          comm_is_FederatedComm = True\<rparr>
         (\<lambda>s. Returns (s + 1)) (3::nat)
         (fresh [Delivered (PSize 0), Delivered (PSize 0) :: nat reply])) = Ret (Success, 4)
   \<and> fst (TryApplyWithLabels
         \<lparr>GetRank = 2, IsEncrypted = False, XGBOOST_USE_FEDERATED = True,
          comm_is_FederatedComm = True\<rparr>
         (\<lambda>s. Returns (s + 1)) (4::nat)
         (fresh [Delivered (PSize 0) :: nat reply])) = Ret (Success, 4)
   \<and> fst (TryApplyWithLabels
         \<lparr>GetRank = 0, IsEncrypted = False, XGBOOST_USE_FEDERATED = True,
          comm_is_FederatedComm = True\<rparr>
         (\<lambda>s. Throws (DmlcError [CHR ''a'', CHR 0x00, CHR ''b'']) s) (3::nat)
         (fresh [Delivered (PSize 0), Delivered (PSize 0) :: nat reply])) = Stop (Fatal ''a'')
   \<and> fst (TryApplyWithLabels
         \<lparr>GetRank = 2, IsEncrypted = False, XGBOOST_USE_FEDERATED = True,
          comm_is_FederatedComm = True\<rparr>
         (\<lambda>s. Returns s) (4::nat)
         (fresh [Delivered (PSize 1), Delivered (PChars ''a'') :: nat reply]))
       = Stop (Fatal ''a'')"
  using
    TryApplyWithLabels_unanimous
      [of "\<lparr>GetRank = 0, IsEncrypted = False, XGBOOST_USE_FEDERATED = True,
            comm_is_FederatedComm = True\<rparr>"
        "\<lparr>GetRank = 2, IsEncrypted = False, XGBOOST_USE_FEDERATED = True,
            comm_is_FederatedComm = True\<rparr>"
        _ "\<lambda>s. Throws (DmlcError [CHR ''a'', CHR 0x00, CHR ''b'']) s" "3::nat"
        "PSize 0 :: nat payload" "PSize 0" "[]"
        _ "\<lambda>s. Returns s" "4::nat" 3 "[CHR ''a'', CHR 0x00, CHR ''b'']", OF _ _ refl refl]
    TryApplyWithLabels_unanimous
      [of "\<lparr>GetRank = 0, IsEncrypted = False, XGBOOST_USE_FEDERATED = True,
            comm_is_FederatedComm = True\<rparr>"
        "\<lparr>GetRank = 2, IsEncrypted = False, XGBOOST_USE_FEDERATED = True,
            comm_is_FederatedComm = True\<rparr>"
        _ "\<lambda>s. Throws (DmlcError ''boom'') s" "3::nat" "PSize 0 :: nat payload" "PSize 0" "[]"
        _ "\<lambda>s. Returns s" "4::nat" 3 "''boom''", OF _ _ refl refl]
    TryApplyWithLabels_unanimous
      [of "\<lparr>GetRank = 0, IsEncrypted = False, XGBOOST_USE_FEDERATED = True,
            comm_is_FederatedComm = True\<rparr>"
        "\<lparr>GetRank = 2, IsEncrypted = False, XGBOOST_USE_FEDERATED = True,
            comm_is_FederatedComm = True\<rparr>"
        _ "\<lambda>s. Returns (s + 1)" "3::nat" "PSize 0 :: nat payload" "PSize 0" "[]"
        _ "\<lambda>s. Returns (s + 1)" "4::nat" 4 "''boom''", OF _ _ refl refl]
  by (simp add: TryApplyWithLabels_def worker_defs bcast_defs fresh_def heard_def Resize_def
      c_str_def)

text \<open>
  Claim C2 as the spec words it fails on three inputs of the leader: a \<^verbatim>\<open>dmlc::Error\<close>
  with an empty message is swallowed and the result is \<open>Success\<close>; an exception that is
  not a \<^verbatim>\<open>dmlc::Error\<close> is not caught and nothing is broadcast; and when the broadcast of
  a non-empty message fails, the chain stops before \<^verbatim>\<open>LOG(FATAL)\<close> and the worker returns
  a failure instead of reporting the leader's message.
\<close>

theorem TryApplyWithLabels_claim_counterexample:
  "TryApplyWithLabels
     \<lparr>GetRank = 0, IsEncrypted = False, XGBOOST_USE_FEDERATED = True,
      comm_is_FederatedComm = True\<rparr>
     (\<lambda>s. Throws (DmlcError []) s) (3::nat) (fresh [Delivered (PSize 0) :: nat reply])
   = (Ret (Success, 3), \<lparr>inbox = [], trace = [Call_fn, Call_Broadcast (PSize 0)]\<rparr>)
   \<and> TryApplyWithLabels
       \<lparr>GetRank = 0, IsEncrypted = False, XGBOOST_USE_FEDERATED = True,
        comm_is_FederatedComm = True\<rparr>
       (\<lambda>s. Throws (OtherException ''std::bad_alloc'') s) (3::nat)
       (fresh [Delivered (PSize 0) :: nat reply])
     = (Stop (Uncaught (OtherException ''std::bad_alloc'')),
        \<lparr>inbox = [Delivered (PSize 0)], trace = [Call_fn]\<rparr>)
   \<and> TryApplyWithLabels
       \<lparr>GetRank = 0, IsEncrypted = False, XGBOOST_USE_FEDERATED = True,
        comm_is_FederatedComm = True\<rparr>
       (\<lambda>s. Throws (DmlcError ''boom'') s) (3::nat)
       (fresh [Delivered (PSize 0), CommError ''reset'' :: nat reply])
     = (Ret (Fail ''reset'', 3),
        \<lparr>inbox = [],
         trace = [Call_fn, Call_Broadcast (PSize 4), Call_Broadcast (PChars ''boom'')]\<rparr>)"
  by (simp add: TryApplyWithLabels_def worker_defs bcast_defs fresh_def Resize_def c_str_def)

section \<open>Label-aware apply: what each worker does\<close>

lemma Resize_same_length [simp]: "Resize e0 (length xs) xs = xs"
  by (simp add: Resize_def)

lemma length_Resize [simp]: "length (Resize e0 n xs) = n"
  by (simp add: Resize_def)

lemma ApplyWithLabels_leader_inv:
  assumes "GetRank env = 0" and "IsVerticalFederated info"
    and "ApplyWithLabels env info T0 r fn \<lparr>inbox = ib, trace = tr\<rparr> = (Ret out, st')"
  shows "(fn r = Returns out \<or> (\<exists>w. fn r = Throws (DmlcError w) out \<and> c_str w = []))
       \<and> trace st' = tr @ [Call_fn, Call_Broadcast (PSize 0),
                            Call_Broadcast (PSize (length out)), Call_Resize (length out),
                            Call_Broadcast (PElems out)]
       \<and> (\<exists>p1 p2 p3. ib = Delivered p1 # Delivered p2 # Delivered p3 # inbox st')"
proof -
  obtain o1 st1 where t: "TryApplyWithLabels env fn r \<lparr>inbox = ib, trace = tr\<rparr> = (o1, st1)"
    by (cases "TryApplyWithLabels env fn r \<lparr>inbox = ib, trace = tr\<rparr>")
  from assms(2,3) t obtain rc r1 where o1: "o1 = Ret (rc, r1)"
    by (cases o1) (auto simp: ApplyWithLabels_def then_do_def)
  from assms(2,3) t o1 have rc: "rc = Success"
    by (cases rc)
      (auto simp: ApplyWithLabels_def then_do_def chain_def return_def SafeColl_def stop_def)
  from t o1 rc have f: "fst (TryApplyWithLabels env fn r \<lparr>inbox = ib, trace = tr\<rparr>)
                          = Ret (Success, r1)"
    by simp
  have fn: "fn r = Returns r1 \<or> (\<exists>w. fn r = Throws (DmlcError w) r1 \<and> c_str w = [])"
    by (rule TryApply_leader_success_only_if [OF assms(1) f])
  have ib: "\<exists>p rest. ib = Delivered p # rest"
    using fn t o1 rc assms(1)
    by (cases ib)
      (auto simp: TryApplyWithLabels_def worker_defs bcast_defs Let_def split: reply.splits)
  then obtain p1 rest1 where ib1: "ib = Delivered p1 # rest1" by blast
  have st1: "st1 = \<lparr>inbox = rest1, trace = tr @ [Call_fn, Call_Broadcast (PSize 0)]\<rparr>"
    using fn
  proof (elim disjE exE conjE)
    assume a: "fn r = Returns r1"
    from TryApply_leader_returns [of env fn r r1 p1 rest1 tr, OF assms(1) a] t o1 ib1
    show ?thesis by simp
  next
    fix w
    assume a: "fn r = Throws (DmlcError w) r1" and e: "c_str w = []"
    from TryApply_leader_empty_message [of env fn r w r1 p1 rest1 tr, OF assms(1) a e] t o1 ib1
    show ?thesis by simp
  qed
  have rest: "ApplyWithLabels env info T0 r fn \<lparr>inbox = ib, trace = tr\<rparr> =
      then_do
        (chain
          (chain (return (Success, (r1, length r1)))
            (\<lambda>(result, sz).
               then_do (Broadcast_size env sz 0) (\<lambda>(rc, sz'). return (rc, (result, sz')))))
          (\<lambda>(result, sz).
             then_do (record_call (Call_Resize sz))
               (\<lambda>_. then_do (Broadcast_elems env (Resize T0 sz result) 0)
                       (\<lambda>(rc, result'). return (rc, (result', sz))))))
        (\<lambda>(rc, (result, _)). then_do (SafeColl rc) (\<lambda>_. return result)) st1"
    using assms(2) t o1 rc by (simp add: ApplyWithLabels_def then_do_def)
  show ?thesis
  proof (cases rest1)
    case Nil
    with assms(1,3) rest st1 show ?thesis
      by (simp add: worker_defs bcast_defs SafeColl_def)
  next
    case (Cons a rest2)
    show ?thesis
    proof (cases a)
      case (CommError m)
      with assms(1,3) rest st1 Cons show ?thesis
        by (simp add: worker_defs bcast_defs SafeColl_def)
    next
      case (Delivered p2)
      show ?thesis
      proof (cases rest2)
        case Nil
        with assms(1,3) rest st1 Cons Delivered show ?thesis
          by (simp add: worker_defs bcast_defs SafeColl_def)
      next
        case (Cons b rest3)
        show ?thesis
        proof (cases b)
          case (CommError m)
          with assms(1,3) rest st1 \<open>rest1 = a # rest2\<close> Delivered Cons show ?thesis
            by (simp add: worker_defs bcast_defs SafeColl_def)
        next
          case (Delivered p3)
          with assms(1,3) rest st1 \<open>rest1 = a # rest2\<close> \<open>a = Delivered p2\<close> Cons fn ib1
          show ?thesis
            by (auto simp: worker_defs bcast_defs SafeColl_def)
        qed
      qed
    qed
  qed
qed




section \<open>Label-aware apply: replication of the leader's result\<close>



section \<open>The collective calls of a run that returns or reports the leader's error\<close>

lemma TryApply_success_calls:
  assumes "TryApplyWithLabels env fn s \<lparr>inbox = ib, trace = tr\<rparr> = (Ret (Success, s'), st')"
  shows "collective_calls (trace st') = collective_calls tr @ [BroadcastCall]
       \<and> sync_calls (trace st') = sync_calls tr
       \<and> (\<exists>p. ib = Delivered p # inbox st')"
  using assms
  by (auto simp: TryApplyWithLabels_def worker_defs bcast_defs Let_def collective_calls_append
      sync_calls_def
      split: if_splits list.splits reply.splits completion.splits exn.splits)

lemma TryApply_fatal_calls:
  assumes "TryApplyWithLabels env fn s \<lparr>inbox = ib, trace = tr\<rparr> = (Stop (Fatal m), st')"
  shows "collective_calls (trace st') = collective_calls tr @ [BroadcastCall, BroadcastCall]"
  using assms
  by (auto simp: TryApplyWithLabels_def worker_defs bcast_defs Let_def collective_calls_append
      split: if_splits list.splits reply.splits completion.splits exn.splits)

lemma ApplyWithLabels_tail_not_fatal:
  "fst (then_do
        (chain
          (chain (return (rc0, (r1, length r1)))
            (\<lambda>(result, sz).
               then_do (Broadcast_size env sz 0) (\<lambda>(rc, sz'). return (rc, (result, sz')))))
          (\<lambda>(result, sz).
             then_do (record_call (Call_Resize sz))
               (\<lambda>_. then_do (Broadcast_elems env (Resize T0 sz result) 0)
                       (\<lambda>(rc, result'). return (rc, (result', sz))))))
        (\<lambda>(rc, (result, _)). then_do (SafeColl rc) (\<lambda>_. return result))
        st) \<noteq> Stop (Fatal m)"
  by (auto simp: worker_defs bcast_defs Let_def SafeColl_def
      split: if_splits list.splits reply.splits Result.splits)

lemma ApplyWithLabels_Fatal_calls:
  assumes "ApplyWithLabels env info T0 r fn \<lparr>inbox = ib, trace = tr\<rparr> = (Stop (Fatal m), st')"
  shows "collective_calls (trace st') = collective_calls tr @ [BroadcastCall, BroadcastCall]"
proof (cases "IsVerticalFederated info")
  case False
  with assms show ?thesis
    by (auto simp: ApplyWithLabels_def call_def split: completion.splits)
next
  case True
  obtain o1 st1 where t: "TryApplyWithLabels env fn r \<lparr>inbox = ib, trace = tr\<rparr> = (o1, st1)"
    by (cases "TryApplyWithLabels env fn r \<lparr>inbox = ib, trace = tr\<rparr>")
  show ?thesis
  proof (cases o1)
    case (Stop h)
    with assms True t have "h = Fatal m" and "st1 = st'"
      by (simp_all add: ApplyWithLabels_def then_do_def)
    with t Stop show ?thesis by (simp add: TryApply_fatal_calls)
  next
    case (Ret x)
    obtain rc r1 where x: "x = (rc, r1)" by (cases x)
    from assms True t Ret x show ?thesis
      using ApplyWithLabels_tail_not_fatal [of rc r1 env T0 st1 m]
      by (simp add: ApplyWithLabels_def then_do_def [of "TryApplyWithLabels env fn r"])
  qed
qed

lemma ApplyWithLabels_buffer_Fatal_calls:
  assumes "ApplyWithLabels_buffer env info buf sz fn \<lparr>inbox = ib, trace = tr\<rparr>
             = (Stop (Fatal m), st')"
  shows "collective_calls (trace st') = collective_calls tr @ [BroadcastCall, BroadcastCall]"
proof (cases "IsVerticalFederated info")
  case False
  with assms show ?thesis
    by (auto simp: ApplyWithLabels_buffer_def call_def split: completion.splits)
next
  case True
  obtain o1 st1 where t: "TryApplyWithLabels env fn buf \<lparr>inbox = ib, trace = tr\<rparr> = (o1, st1)"
    by (cases "TryApplyWithLabels env fn buf \<lparr>inbox = ib, trace = tr\<rparr>")
  show ?thesis
  proof (cases o1)
    case (Stop h)
    with assms True t have "h = Fatal m" and "st1 = st'"
      by (simp_all add: ApplyWithLabels_buffer_def then_do_def chain_def)
    with t Stop show ?thesis by (simp add: TryApply_fatal_calls)
  next
    case (Ret x)
    obtain rc r1 where x: "x = (rc, r1)" by (cases x)
    from assms True t Ret x show ?thesis
      by (auto simp: ApplyWithLabels_buffer_def then_do_def chain_def return_def stop_def
          Broadcast_bytes_def Broadcast_def Let_def SafeColl_def
          split: if_splits list.splits reply.splits Result.splits)
  qed
qed

lemma ApplyWithLabels_tail:
  assumes "then_do
        (chain
          (chain (return (rc0, (r1, length r1)))
            (\<lambda>(result, sz).
               then_do (Broadcast_size env sz 0) (\<lambda>(rc, sz'). return (rc, (result, sz')))))
          (\<lambda>(result, sz).
             then_do (record_call (Call_Resize sz))
               (\<lambda>_. then_do (Broadcast_elems env (Resize T0 sz result) 0)
                       (\<lambda>(rc, result'). return (rc, (result', sz))))))
        (\<lambda>(rc, (result, _)). then_do (SafeColl rc) (\<lambda>_. return result))
        \<lparr>inbox = ib, trace = tr\<rparr> = (Ret out, st')"
  shows "collective_calls (trace st') = collective_calls tr @ [BroadcastCall, BroadcastCall]
       \<and> sync_calls (trace st') = sync_calls tr
       \<and> fn_calls (trace st') = fn_calls tr"
  using assms
  by (auto simp: worker_defs bcast_defs Let_def SafeColl_def collective_calls_append
      sync_calls_def fn_calls_def
      split: if_splits list.splits reply.splits Result.splits)

lemma ApplyWithLabels_tail_no_fn:
  "fn_calls (trace (snd (then_do
        (chain
          (chain (return (rc0, (r1, length r1)))
            (\<lambda>(result, sz).
               then_do (Broadcast_size env sz 0) (\<lambda>(rc, sz'). return (rc, (result, sz')))))
          (\<lambda>(result, sz).
             then_do (record_call (Call_Resize sz))
               (\<lambda>_. then_do (Broadcast_elems env (Resize T0 sz result) 0)
                       (\<lambda>(rc, result'). return (rc, (result', sz))))))
        (\<lambda>(rc, (result, _)). then_do (SafeColl rc) (\<lambda>_. return result))
        st))) = fn_calls (trace st)"
  by (auto simp: worker_defs bcast_defs Let_def SafeColl_def fn_calls_def
      split: if_splits list.splits reply.splits Result.splits)

lemma ApplyWithLabels_Ret_calls:
  assumes "ApplyWithLabels env info T0 r fn \<lparr>inbox = ib, trace = tr\<rparr> = (Ret out, st')"
  shows "collective_calls (trace st')
           = collective_calls tr
             @ (if IsVerticalFederated info then [BroadcastCall, BroadcastCall, BroadcastCall]
                else [])
       \<and> sync_calls (trace st') = sync_calls tr"
proof (cases "IsVerticalFederated info")
  case False
  with assms show ?thesis
    by (auto simp: ApplyWithLabels_def call_def emit_def collective_calls_append sync_calls_def
        split: completion.splits)
next
  case True
  obtain o1 st1 where t: "TryApplyWithLabels env fn r \<lparr>inbox = ib, trace = tr\<rparr> = (o1, st1)"
    by (cases "TryApplyWithLabels env fn r \<lparr>inbox = ib, trace = tr\<rparr>")
  from assms True t obtain rc r1 where o1: "o1 = Ret (rc, r1)"
    by (cases o1) (auto simp: ApplyWithLabels_def then_do_def)
  from assms True t o1 have rc: "rc = Success"
    by (cases rc)
      (auto simp: ApplyWithLabels_def then_do_def chain_def return_def SafeColl_def stop_def)
  note c1 = TryApply_success_calls [OF t [unfolded o1 rc]]
  obtain ib1 tr1 where st1: "st1 = \<lparr>inbox = ib1, trace = tr1\<rparr>" by (cases st1) auto
  have "then_do
        (chain
          (chain (return (Success, (r1, length r1)))
            (\<lambda>(result, sz).
               then_do (Broadcast_size env sz 0) (\<lambda>(rc, sz'). return (rc, (result, sz')))))
          (\<lambda>(result, sz).
             then_do (record_call (Call_Resize sz))
               (\<lambda>_. then_do (Broadcast_elems env (Resize T0 sz result) 0)
                       (\<lambda>(rc, result'). return (rc, (result', sz))))))
        (\<lambda>(rc, (result, _)). then_do (SafeColl rc) (\<lambda>_. return result))
        \<lparr>inbox = ib1, trace = tr1\<rparr> = (Ret out, st')"
    using assms True t o1 rc st1 by (simp add: ApplyWithLabels_def then_do_def)
  note c2 = ApplyWithLabels_tail [OF this]
  from c1 c2 True st1 show ?thesis by simp
qed

lemma ApplyWithLabels_follower_no_fn:
  assumes "GetRank env \<noteq> 0" and "IsVerticalFederated info"
  shows "fn_calls (trace (snd (ApplyWithLabels env info T0 r fn st))) = fn_calls (trace st)"
proof -
  obtain o1 st1 where t: "TryApplyWithLabels env fn r st = (o1, st1)"
    by (cases "TryApplyWithLabels env fn r st")
  have n1: "fn_calls (trace st1) = fn_calls (trace st)"
    using TryApply_follower_no_fn [OF assms(1), of fn r st] t by simp
  show ?thesis
  proof (cases o1)
    case (Stop h)
    with assms(2) t n1 show ?thesis by (simp add: ApplyWithLabels_def then_do_def)
  next
    case (Ret x)
    obtain rc r1 where x: "x = (rc, r1)" by (cases x)
    from assms(2) t Ret x n1 show ?thesis
      using ApplyWithLabels_tail_no_fn [of rc r1 env T0 st1]
      by (simp add: ApplyWithLabels_def then_do_def [of "TryApplyWithLabels env fn r"])
  qed
qed

lemma ApplyWithLabels_buffer_Ret_calls:
  assumes "ApplyWithLabels_buffer env info buf sz fn \<lparr>inbox = ib, trace = tr\<rparr> = (Ret out, st')"
  shows "collective_calls (trace st')
           = collective_calls tr
             @ (if IsVerticalFederated info then [BroadcastCall, BroadcastCall] else [])"
proof (cases "IsVerticalFederated info")
  case False
  with assms show ?thesis
    by (auto simp: ApplyWithLabels_buffer_def call_def emit_def collective_calls_append
        split: completion.splits)
next
  case True
  obtain o1 st1 where t: "TryApplyWithLabels env fn buf \<lparr>inbox = ib, trace = tr\<rparr> = (o1, st1)"
    by (cases "TryApplyWithLabels env fn buf \<lparr>inbox = ib, trace = tr\<rparr>")
  from assms True t obtain rc r1 where o1: "o1 = Ret (rc, r1)"
    by (cases o1) (auto simp: ApplyWithLabels_buffer_def then_do_def chain_def)
  from assms True t o1 have rc: "rc = Success"
    by (cases rc)
      (auto simp: ApplyWithLabels_buffer_def then_do_def chain_def return_def SafeColl_def
        stop_def)
  note c1 = TryApply_success_calls [OF t [unfolded o1 rc]]
  obtain ib1 tr1 where st1: "st1 = \<lparr>inbox = ib1, trace = tr1\<rparr>" by (cases st1) auto
  have "then_do
        (then_do (Broadcast_bytes env (take sz r1) 0)
           (\<lambda>(rc, received). return (rc, received @ drop sz r1)))
        (\<lambda>(rc, buffer). then_do (SafeColl rc) (\<lambda>_. return buffer))
        \<lparr>inbox = ib1, trace = tr1\<rparr> = (Ret out, st')"
    using assms True t o1 rc st1
    by (simp add: ApplyWithLabels_buffer_def then_do_def chain_def)
  then have "collective_calls (trace st') = collective_calls tr1 @ [BroadcastCall]"
    by (auto simp: worker_defs bcast_defs Let_def SafeColl_def collective_calls_append
        split: if_splits list.splits reply.splits Result.splits)
  with c1 True st1 show ?thesis by simp
qed

section \<open>Secure gradient broadcast: what each worker does\<close>

lemma BroadcastGradient_encrypted_leader:
  assumes "GetRank env = 0" and "IsVerticalFederated info" and "IsEncrypted env"
    and "XGBOOST_USE_FEDERATED env" and "comm_is_FederatedComm env"
    and "grad_fn g = Returns g1"
  shows "BroadcastGradient env info EncryptGradient grad_fn g
           \<lparr>inbox = Delivered p1 # Delivered p2 # rest, trace = tr\<rparr>
         = ApplyWithLabels env info (GradientPair 0 0) (Fill (GradientPair 0 0) g1) grad_fn
             \<lparr>inbox = rest,
              trace = tr @ [Call_fn, Call_EncryptGradient (as_floats g1),
                            Call_Broadcast (PSize (length (EncryptGradient (as_floats g1)))),
                            Call_Broadcast (PBytes (EncryptGradient (as_floats g1))),
                            Call_SyncEncryptedGradient (EncryptGradient (as_floats g1)),
                            Call_Fill]\<rparr>"
  using assms by (simp add: BroadcastGradient_def worker_defs bcast_defs SafeColl_def)

lemma BroadcastGradient_encrypted_follower:
  assumes "GetRank env \<noteq> 0" and "IsVerticalFederated info" and "IsEncrypted env"
    and "XGBOOST_USE_FEDERATED env" and "comm_is_FederatedComm env"
  shows "BroadcastGradient env info EncryptGradient grad_fn g
           \<lparr>inbox = Delivered (PSize (length e)) # Delivered (PBytes e) # rest, trace = tr\<rparr>
         = ApplyWithLabels env info (GradientPair 0 0) (Fill (GradientPair 0 0) g) grad_fn
             \<lparr>inbox = rest,
              trace = tr @ [Call_Broadcast (PSize 0), Call_Resize (length e),
                            Call_Broadcast (PBytes (replicate (length e) 0)),
                            Call_SyncEncryptedGradient e, Call_Fill]\<rparr>"
  using assms
  by (simp add: BroadcastGradient_def worker_defs bcast_defs SafeColl_def Resize_def)

lemma BroadcastGradient_encrypted_inv:
  assumes "IsVerticalFederated info" and "IsEncrypted env"
    and "BroadcastGradient env info EncryptGradient grad_fn g \<lparr>inbox = ib, trace = tr\<rparr>
           = (oc, st')"
    and "oc = Ret out \<or> oc = Stop (Fatal m)"
  shows "\<exists>g1 pre rest.
           ApplyWithLabels env info (GradientPair 0 0) (Fill (GradientPair 0 0) g1) grad_fn
             \<lparr>inbox = rest, trace = tr @ pre\<rparr> = (oc, st')
         \<and> collective_calls pre = [BroadcastCall, BroadcastCall]
         \<and> sync_calls pre = 1
         \<and> (GetRank env = 0 \<longrightarrow>
               grad_fn g = Returns g1 \<and> fn_calls pre = 1
             \<and> Call_EncryptGradient (as_floats g1) \<in> set pre)
         \<and> (GetRank env \<noteq> 0 \<longrightarrow> g1 = g \<and> fn_calls pre = 0)"
proof (cases "GetRank env = 0")
  case True
  from assms True obtain g1 where g1: "grad_fn g = Returns g1"
    by (cases "grad_fn g") (auto simp: BroadcastGradient_def worker_defs split: if_splits)
  from assms True g1 have fed: "XGBOOST_USE_FEDERATED env" "comm_is_FederatedComm env"
    by (auto simp: BroadcastGradient_def stop_def split: if_splits)
  from assms True g1 fed obtain p1 p2 rest where ib: "ib = Delivered p1 # Delivered p2 # rest"
    by (auto simp: BroadcastGradient_def worker_defs bcast_defs SafeColl_def Let_def
        split: list.splits reply.splits)
  note eq = BroadcastGradient_encrypted_leader
    [of env info grad_fn g g1 EncryptGradient p1 p2 rest tr, OF True assms(1) assms(2) fed g1]
  show ?thesis
    apply (rule exI [of _ g1])
    apply (rule exI [of _ "[Call_fn, Call_EncryptGradient (as_floats g1),
                            Call_Broadcast (PSize (length (EncryptGradient (as_floats g1)))),
                            Call_Broadcast (PBytes (EncryptGradient (as_floats g1))),
                            Call_SyncEncryptedGradient (EncryptGradient (as_floats g1)),
                            Call_Fill]"])
    apply (rule exI [of _ rest])
    using assms(3) eq ib True g1
    apply (simp add: sync_calls_def fn_calls_def)
    done
next
  case False
  from assms False have fed: "XGBOOST_USE_FEDERATED env" "comm_is_FederatedComm env"
    by (auto simp: BroadcastGradient_def stop_def split: if_splits)
  from assms False fed obtain e rest where
    ib: "ib = Delivered (PSize (length e)) # Delivered (PBytes e) # rest"
    by (auto simp: BroadcastGradient_def worker_defs bcast_defs SafeColl_def Let_def Resize_def
        split: list.splits reply.splits if_splits payload.splits)
  note eq = BroadcastGradient_encrypted_follower
    [of env info EncryptGradient grad_fn g e rest tr, OF False assms(1) assms(2) fed]
  show ?thesis
    apply (rule exI [of _ g])
    apply (rule exI [of _ "[Call_Broadcast (PSize 0), Call_Resize (length e),
                            Call_Broadcast (PBytes (replicate (length e) 0)),
                            Call_SyncEncryptedGradient e, Call_Fill]"])
    apply (rule exI [of _ rest])
    using assms(3) eq ib False
    apply (simp add: sync_calls_def fn_calls_def)
    done
qed

lemma BroadcastGradient_encrypted_Ret_inv:
  assumes "IsVerticalFederated info" and "IsEncrypted env"
    and "BroadcastGradient env info EncryptGradient grad_fn g \<lparr>inbox = ib, trace = tr\<rparr>
           = (Ret out, st')"
  shows "\<exists>g1 pre rest.
           ApplyWithLabels env info (GradientPair 0 0) (Fill (GradientPair 0 0) g1) grad_fn
             \<lparr>inbox = rest, trace = tr @ pre\<rparr> = (Ret out, st')
         \<and> collective_calls pre = [BroadcastCall, BroadcastCall]
         \<and> sync_calls pre = 1
         \<and> (GetRank env = 0 \<longrightarrow>
               grad_fn g = Returns g1 \<and> fn_calls pre = 1
             \<and> Call_EncryptGradient (as_floats g1) \<in> set pre)
         \<and> (GetRank env \<noteq> 0 \<longrightarrow> g1 = g \<and> fn_calls pre = 0)"
  by (rule BroadcastGradient_encrypted_inv [OF assms, of out "[]"]) simp

lemma BroadcastGradient_encrypted_follower_no_fn:
  assumes "GetRank env \<noteq> 0" and "IsVerticalFederated info" and "IsEncrypted env"
  shows "fn_calls (trace (snd (BroadcastGradient env info EncryptGradient grad_fn g st)))
           = fn_calls (trace st)"
  using assms
  by (auto simp: BroadcastGradient_def worker_defs bcast_defs SafeColl_def Let_def
      ApplyWithLabels_follower_no_fn fn_calls_append
      split: list.splits reply.splits if_splits Result.splits)
    (simp_all add: fn_calls_def)

lemma BroadcastGradient_Ret_calls:
  assumes "BroadcastGradient env info EncryptGradient grad_fn g \<lparr>inbox = ib, trace = tr\<rparr>
             = (Ret out, st')"
  shows "collective_calls (trace st')
           = collective_calls tr
             @ (if IsVerticalFederated info \<and> IsEncrypted env
                then [BroadcastCall, BroadcastCall, BroadcastCall, BroadcastCall, BroadcastCall]
                else if IsVerticalFederated info
                then [BroadcastCall, BroadcastCall, BroadcastCall]
                else [])"
proof (cases "IsVerticalFederated info \<and> IsEncrypted env")
  case False
  with assms have "ApplyWithLabels env info (GradientPair 0 0) g grad_fn
                     \<lparr>inbox = ib, trace = tr\<rparr> = (Ret out, st')"
    by (simp add: BroadcastGradient_def)
  from ApplyWithLabels_Ret_calls [OF this] False show ?thesis by auto
next
  case True
  then have vf: "IsVerticalFederated info" and enc: "IsEncrypted env" by simp_all
  from BroadcastGradient_encrypted_Ret_inv [OF vf enc assms]
  obtain g1 pre rest where
    run: "ApplyWithLabels env info (GradientPair 0 0) (Fill (GradientPair 0 0) g1) grad_fn
            \<lparr>inbox = rest, trace = tr @ pre\<rparr> = (Ret out, st')"
    and pre: "collective_calls pre = [BroadcastCall, BroadcastCall]"
    by blast
  from ApplyWithLabels_Ret_calls [OF run] pre vf enc show ?thesis
    by (simp add: collective_calls_append)
qed

lemma BroadcastGradient_Fatal_calls:
  assumes "BroadcastGradient env info EncryptGradient grad_fn g \<lparr>inbox = ib, trace = tr\<rparr>
             = (Stop (Fatal m), st')"
  shows "collective_calls (trace st')
           = collective_calls tr
             @ (if IsVerticalFederated info \<and> IsEncrypted env
                then [BroadcastCall, BroadcastCall, BroadcastCall, BroadcastCall]
                else [BroadcastCall, BroadcastCall])"
proof (cases "IsVerticalFederated info \<and> IsEncrypted env")
  case False
  with assms have "ApplyWithLabels env info (GradientPair 0 0) g grad_fn
                     \<lparr>inbox = ib, trace = tr\<rparr> = (Stop (Fatal m), st')"
    by (simp add: BroadcastGradient_def)
  from ApplyWithLabels_Fatal_calls [OF this] False show ?thesis by auto
next
  case True
  then have vf: "IsVerticalFederated info" and enc: "IsEncrypted env" by simp_all
  have "Stop (Fatal m) = Ret [] \<or> (Stop (Fatal m) :: GradientPair list outcome) = Stop (Fatal m)"
    by simp
  from BroadcastGradient_encrypted_inv [OF vf enc assms this]
  obtain g1 pre rest where
    run: "ApplyWithLabels env info (GradientPair 0 0) (Fill (GradientPair 0 0) g1) grad_fn
            \<lparr>inbox = rest, trace = tr @ pre\<rparr> = (Stop (Fatal m), st')"
    and pre: "collective_calls pre = [BroadcastCall, BroadcastCall]"
    by blast
  from ApplyWithLabels_Fatal_calls [OF run] pre vf enc show ?thesis
    by (simp add: collective_calls_append)
qed

section \<open>The sequence of collective calls\<close>

text \<open>
  Claim C8, as the code has it. With the partition mode and the encryption mode fixed,
  the sequence of \<^verbatim>\<open>Broadcast\<close> and \<^verbatim>\<open>Allreduce\<close> calls of a run depends on the data only
  through whether the leader's function raised an error that is reported: two runs of the
  same operation that both return (for \<^verbatim>\<open>TryApplyWithLabels\<close>: both return \<open>Success\<close>)
  have issued the same sequence, and two runs that both end in the fatal report of the
  leader's error message have issued the same sequence, whatever the rank, the data, the
  function object, the message and the replies of the two runs; the three reductions
  issue the same sequence in every run, returning or not.
\<close>

theorem collective_calls_fixed_by_mode:
  assumes "IsEncrypted env1 = IsEncrypted env2"
  shows
    "(TryApplyWithLabels env1 fnT1 sT1 (fresh ibT1) = (Ret (Success, tT1), stT1) \<longrightarrow>
      TryApplyWithLabels env2 fnT2 sT2 (fresh ibT2) = (Ret (Success, tT2), stT2) \<longrightarrow>
        collective_calls (trace stT1) = collective_calls (trace stT2))
   \<and> (TryApplyWithLabels env1 fnT1 sT1 (fresh ibT1) = (Stop (Fatal mT1), stT1) \<longrightarrow>
      TryApplyWithLabels env2 fnT2 sT2 (fresh ibT2) = (Stop (Fatal mT2), stT2) \<longrightarrow>
        collective_calls (trace stT1) = collective_calls (trace stT2))
   \<and> (ApplyWithLabels env1 info TA1 rA1 fnA1 (fresh ibA1) = (Ret oA1, stA1) \<longrightarrow>
      ApplyWithLabels env2 info TA2 rA2 fnA2 (fresh ibA2) = (Ret oA2, stA2) \<longrightarrow>
        collective_calls (trace stA1) = collective_calls (trace stA2))
   \<and> (ApplyWithLabels env1 info TA1 rA1 fnA1 (fresh ibA1) = (Stop (Fatal mA1), stA1) \<longrightarrow>
      ApplyWithLabels env2 info TA2 rA2 fnA2 (fresh ibA2) = (Stop (Fatal mA2), stA2) \<longrightarrow>
        collective_calls (trace stA1) = collective_calls (trace stA2))
   \<and> (ApplyWithLabels_buffer env1 info bB1 nB1 fnB1 (fresh ibB1) = (Ret oB1, stB1) \<longrightarrow>
      ApplyWithLabels_buffer env2 info bB2 nB2 fnB2 (fresh ibB2) = (Ret oB2, stB2) \<longrightarrow>
        collective_calls (trace stB1) = collective_calls (trace stB2))
   \<and> (ApplyWithLabels_buffer env1 info bB1 nB1 fnB1 (fresh ibB1) = (Stop (Fatal mB1), stB1) \<longrightarrow>
      ApplyWithLabels_buffer env2 info bB2 nB2 fnB2 (fresh ibB2) = (Stop (Fatal mB2), stB2) \<longrightarrow>
        collective_calls (trace stB1) = collective_calls (trace stB2))
   \<and> (BroadcastGradient env1 info encG1 fnG1 gG1 (fresh ibG1) = (Ret oG1, stG1) \<longrightarrow>
      BroadcastGradient env2 info encG2 fnG2 gG2 (fresh ibG2) = (Ret oG2, stG2) \<longrightarrow>
        collective_calls (trace stG1) = collective_calls (trace stG2))
   \<and> (BroadcastGradient env1 info encG1 fnG1 gG1 (fresh ibG1) = (Stop (Fatal mG1), stG1) \<longrightarrow>
      BroadcastGradient env2 info encG2 fnG2 gG2 (fresh ibG2) = (Stop (Fatal mG2), stG2) \<longrightarrow>
        collective_calls (trace stG1) = collective_calls (trace stG2))
   \<and> collective_calls (trace (snd (GlobalMax info vM1 (fresh ibM1))))
       = collective_calls (trace (snd (GlobalMax info vM2 (fresh ibM2))))
   \<and> collective_calls (trace (snd (GlobalSum info vS1 (fresh ibS1))))
       = collective_calls (trace (snd (GlobalSum info vS2 (fresh ibS2))))
   \<and> collective_calls (trace (snd (GlobalRatio TR1 info xR1 yR1 (fresh ibR1))))
       = collective_calls (trace (snd (GlobalRatio TR2 info xR2 yR2 (fresh ibR2))))"
proof -
  have t: "TryApplyWithLabels env1 fnT1 sT1 (fresh ibT1) = (Ret (Success, tT1), stT1) \<longrightarrow>
      TryApplyWithLabels env2 fnT2 sT2 (fresh ibT2) = (Ret (Success, tT2), stT2) \<longrightarrow>
        collective_calls (trace stT1) = collective_calls (trace stT2)"
  proof (intro impI)
    assume "TryApplyWithLabels env1 fnT1 sT1 (fresh ibT1) = (Ret (Success, tT1), stT1)"
      and "TryApplyWithLabels env2 fnT2 sT2 (fresh ibT2) = (Ret (Success, tT2), stT2)"
    then show "collective_calls (trace stT1) = collective_calls (trace stT2)"
      using TryApply_success_calls [of env1 fnT1 sT1 ibT1 "[]" tT1 stT1]
        TryApply_success_calls [of env2 fnT2 sT2 ibT2 "[]" tT2 stT2]
      by (simp add: fresh_def)
  qed
  have a: "ApplyWithLabels env1 info TA1 rA1 fnA1 (fresh ibA1) = (Ret oA1, stA1) \<longrightarrow>
      ApplyWithLabels env2 info TA2 rA2 fnA2 (fresh ibA2) = (Ret oA2, stA2) \<longrightarrow>
        collective_calls (trace stA1) = collective_calls (trace stA2)"
  proof (intro impI)
    assume "ApplyWithLabels env1 info TA1 rA1 fnA1 (fresh ibA1) = (Ret oA1, stA1)"
      and "ApplyWithLabels env2 info TA2 rA2 fnA2 (fresh ibA2) = (Ret oA2, stA2)"
    then show "collective_calls (trace stA1) = collective_calls (trace stA2)"
      using ApplyWithLabels_Ret_calls [of env1 info TA1 rA1 fnA1 ibA1 "[]" oA1 stA1]
        ApplyWithLabels_Ret_calls [of env2 info TA2 rA2 fnA2 ibA2 "[]" oA2 stA2]
      by (simp add: fresh_def)
  qed
  have b: "ApplyWithLabels_buffer env1 info bB1 nB1 fnB1 (fresh ibB1) = (Ret oB1, stB1) \<longrightarrow>
      ApplyWithLabels_buffer env2 info bB2 nB2 fnB2 (fresh ibB2) = (Ret oB2, stB2) \<longrightarrow>
        collective_calls (trace stB1) = collective_calls (trace stB2)"
  proof (intro impI)
    assume "ApplyWithLabels_buffer env1 info bB1 nB1 fnB1 (fresh ibB1) = (Ret oB1, stB1)"
      and "ApplyWithLabels_buffer env2 info bB2 nB2 fnB2 (fresh ibB2) = (Ret oB2, stB2)"
    then show "collective_calls (trace stB1) = collective_calls (trace stB2)"
      using ApplyWithLabels_buffer_Ret_calls [of env1 info bB1 nB1 fnB1 ibB1 "[]" oB1 stB1]
        ApplyWithLabels_buffer_Ret_calls [of env2 info bB2 nB2 fnB2 ibB2 "[]" oB2 stB2]
      by (simp add: fresh_def)
  qed
  have g: "BroadcastGradient env1 info encG1 fnG1 gG1 (fresh ibG1) = (Ret oG1, stG1) \<longrightarrow>
      BroadcastGradient env2 info encG2 fnG2 gG2 (fresh ibG2) = (Ret oG2, stG2) \<longrightarrow>
        collective_calls (trace stG1) = collective_calls (trace stG2)"
  proof (intro impI)
    assume "BroadcastGradient env1 info encG1 fnG1 gG1 (fresh ibG1) = (Ret oG1, stG1)"
      and "BroadcastGradient env2 info encG2 fnG2 gG2 (fresh ibG2) = (Ret oG2, stG2)"
    then show "collective_calls (trace stG1) = collective_calls (trace stG2)"
      using BroadcastGradient_Ret_calls [of env1 info encG1 fnG1 gG1 ibG1 "[]" oG1 stG1]
        BroadcastGradient_Ret_calls [of env2 info encG2 fnG2 gG2 ibG2 "[]" oG2 stG2] assms
      by (simp add: fresh_def)
  qed
  have tf: "TryApplyWithLabels env1 fnT1 sT1 (fresh ibT1) = (Stop (Fatal mT1), stT1) \<longrightarrow>
      TryApplyWithLabels env2 fnT2 sT2 (fresh ibT2) = (Stop (Fatal mT2), stT2) \<longrightarrow>
        collective_calls (trace stT1) = collective_calls (trace stT2)"
  proof (intro impI)
    assume "TryApplyWithLabels env1 fnT1 sT1 (fresh ibT1) = (Stop (Fatal mT1), stT1)"
      and "TryApplyWithLabels env2 fnT2 sT2 (fresh ibT2) = (Stop (Fatal mT2), stT2)"
    then show "collective_calls (trace stT1) = collective_calls (trace stT2)"
      using TryApply_fatal_calls [of env1 fnT1 sT1 ibT1 "[]" mT1 stT1]
        TryApply_fatal_calls [of env2 fnT2 sT2 ibT2 "[]" mT2 stT2]
      by (simp add: fresh_def)
  qed
  have af: "ApplyWithLabels env1 info TA1 rA1 fnA1 (fresh ibA1) = (Stop (Fatal mA1), stA1) \<longrightarrow>
      ApplyWithLabels env2 info TA2 rA2 fnA2 (fresh ibA2) = (Stop (Fatal mA2), stA2) \<longrightarrow>
        collective_calls (trace stA1) = collective_calls (trace stA2)"
  proof (intro impI)
    assume "ApplyWithLabels env1 info TA1 rA1 fnA1 (fresh ibA1) = (Stop (Fatal mA1), stA1)"
      and "ApplyWithLabels env2 info TA2 rA2 fnA2 (fresh ibA2) = (Stop (Fatal mA2), stA2)"
    then show "collective_calls (trace stA1) = collective_calls (trace stA2)"
      using ApplyWithLabels_Fatal_calls [of env1 info TA1 rA1 fnA1 ibA1 "[]" mA1 stA1]
        ApplyWithLabels_Fatal_calls [of env2 info TA2 rA2 fnA2 ibA2 "[]" mA2 stA2]
      by (simp add: fresh_def)
  qed
  have bf: "ApplyWithLabels_buffer env1 info bB1 nB1 fnB1 (fresh ibB1) = (Stop (Fatal mB1), stB1) \<longrightarrow>
      ApplyWithLabels_buffer env2 info bB2 nB2 fnB2 (fresh ibB2) = (Stop (Fatal mB2), stB2) \<longrightarrow>
        collective_calls (trace stB1) = collective_calls (trace stB2)"
  proof (intro impI)
    assume "ApplyWithLabels_buffer env1 info bB1 nB1 fnB1 (fresh ibB1) = (Stop (Fatal mB1), stB1)"
      and "ApplyWithLabels_buffer env2 info bB2 nB2 fnB2 (fresh ibB2) = (Stop (Fatal mB2), stB2)"
    then show "collective_calls (trace stB1) = collective_calls (trace stB2)"
      using ApplyWithLabels_buffer_Fatal_calls [of env1 info bB1 nB1 fnB1 ibB1 "[]" mB1 stB1]
        ApplyWithLabels_buffer_Fatal_calls [of env2 info bB2 nB2 fnB2 ibB2 "[]" mB2 stB2]
      by (simp add: fresh_def)
  qed
  have gf: "BroadcastGradient env1 info encG1 fnG1 gG1 (fresh ibG1) = (Stop (Fatal mG1), stG1) \<longrightarrow>
      BroadcastGradient env2 info encG2 fnG2 gG2 (fresh ibG2) = (Stop (Fatal mG2), stG2) \<longrightarrow>
        collective_calls (trace stG1) = collective_calls (trace stG2)"
  proof (intro impI)
    assume "BroadcastGradient env1 info encG1 fnG1 gG1 (fresh ibG1) = (Stop (Fatal mG1), stG1)"
      and "BroadcastGradient env2 info encG2 fnG2 gG2 (fresh ibG2) = (Stop (Fatal mG2), stG2)"
    then show "collective_calls (trace stG1) = collective_calls (trace stG2)"
      using BroadcastGradient_Fatal_calls [of env1 info encG1 fnG1 gG1 ibG1 "[]" mG1 stG1]
        BroadcastGradient_Fatal_calls [of env2 info encG2 fnG2 gG2 ibG2 "[]" mG2 stG2] assms
      by (simp add: fresh_def)
  qed
  have m: "collective_calls (trace (snd (GlobalMax info vM1 (fresh ibM1))))
       = collective_calls (trace (snd (GlobalMax info vM2 (fresh ibM2))))"
    by (cases "IsRowSplit info")
      (simp_all add: GlobalMax_trace fresh_def, simp_all add: GlobalMax_def return_def)
  have s: "collective_calls (trace (snd (GlobalSum info vS1 (fresh ibS1))))
       = collective_calls (trace (snd (GlobalSum info vS2 (fresh ibS2))))"
    by (simp add: GlobalSum_def Allreduce_trace fresh_def return_def)
  have r: "collective_calls (trace (snd (GlobalRatio TR1 info xR1 yR1 (fresh ibR1))))
       = collective_calls (trace (snd (GlobalRatio TR2 info xR2 yR2 (fresh ibR2))))"
    by (cases "IsRowSplit info")
      (simp_all add: GlobalRatio_trace fresh_def,
        simp_all add: GlobalRatio_def GlobalSum_def SafeColl_def then_do_def return_def)
  show ?thesis
    by (rule conjI [OF t conjI [OF tf conjI [OF a conjI [OF af conjI [OF b conjI [OF bf
          conjI [OF g conjI [OF gf conjI [OF m conjI [OF s r]]]]]]]]]])
qed

text \<open>A leader and a follower of a vertical-federated, encrypted run, with different
  data, sizes and replies: first returning, then ending in the fatal report of an error
  message (\<open>boom\<close> raised on the leader, \<open>no\<close> received by the follower). The gradient
  function of the last leader returns two pairs on the one pair it is given and raises on
  the two zeroed pairs.\<close>

theorem collective_calls_fixed_by_mode_witness:
  "collective_calls (trace (snd (TryApplyWithLabels leader_env (\<lambda>s. Returns (s + 1)) (0::nat)
       (fresh [Delivered (PSize 7) :: nat reply]))))
     = collective_calls (trace (snd (TryApplyWithLabels follower_env (\<lambda>s. Returns s) (5::nat)
       (fresh [Delivered (PSize 0) :: nat reply]))))
   \<and> collective_calls (trace (snd (ApplyWithLabels leader_env VerticalFederated (0::nat) []
       (\<lambda>r. Returns [4, 5, 6]) (fresh (replicate 3 (Delivered (PSize 0)))))))
     = collective_calls (trace (snd (ApplyWithLabels follower_env VerticalFederated (0::nat) [1]
       (\<lambda>r. Returns r)
       (fresh [Delivered (PSize 0), Delivered (PSize 2), Delivered (PElems [8, 9])]))))
   \<and> collective_calls (trace (snd (ApplyWithLabels_buffer leader_env VerticalFederated [0, 0] 2
       (\<lambda>b. Returns [7, 8]) (fresh (replicate 2 (Delivered (PSize 0) :: nat reply))))))
     = collective_calls (trace (snd (ApplyWithLabels_buffer follower_env VerticalFederated
       [9, 9] 2 (\<lambda>b. Returns b)
       (fresh [Delivered (PSize 0), Delivered (PBytes [3, 4]) :: nat reply]))))
   \<and> collective_calls (trace (snd (BroadcastGradient leader_env VerticalFederated
       (\<lambda>fs. [42, 43]) (\<lambda>g. Returns [GradientPair 1 2]) []
       (fresh (replicate 5 (Delivered (PSize 0)))))))
     = collective_calls (trace (snd (BroadcastGradient follower_env VerticalFederated
       (\<lambda>fs. []) (\<lambda>g. Returns g) [GradientPair 5 5]
       (fresh [Delivered (PSize 1), Delivered (PBytes [7]), Delivered (PSize 0),
               Delivered (PSize 2), Delivered (PElems [GradientPair 3 3, GradientPair 4 4])]))))
   \<and> collective_calls (trace (snd (TryApplyWithLabels leader_env
       (\<lambda>s. Throws (DmlcError ''boom'') s) (0::nat)
       (fresh (replicate 2 (Delivered (PSize 7) :: nat reply))))))
     = collective_calls (trace (snd (TryApplyWithLabels follower_env (\<lambda>s. Returns s) (5::nat)
       (fresh [Delivered (PSize 2), Delivered (PChars ''no'') :: nat reply]))))
   \<and> collective_calls (trace (snd (ApplyWithLabels leader_env VerticalFederated (0::nat) []
       (\<lambda>r. Throws (DmlcError ''boom'') r) (fresh (replicate 2 (Delivered (PSize 0)))))))
     = collective_calls (trace (snd (ApplyWithLabels follower_env VerticalFederated (0::nat) [1]
       (\<lambda>r. Returns r) (fresh [Delivered (PSize 2), Delivered (PChars ''no'')]))))
   \<and> collective_calls (trace (snd (ApplyWithLabels_buffer leader_env VerticalFederated [0, 0] 2
       (\<lambda>b. Throws (DmlcError ''boom'') b)
       (fresh (replicate 2 (Delivered (PSize 0) :: nat reply))))))
     = collective_calls (trace (snd (ApplyWithLabels_buffer follower_env VerticalFederated
       [9, 9] 2 (\<lambda>b. Returns b)
       (fresh [Delivered (PSize 2), Delivered (PChars ''no'') :: nat reply]))))
   \<and> collective_calls (trace (snd (BroadcastGradient leader_env VerticalFederated
       (\<lambda>fs. [42, 43])
       (\<lambda>g. if length g = 2 then Throws (DmlcError ''boom'') g
            else Returns [GradientPair 1 2, GradientPair 3 4])
       [GradientPair 9 9] (fresh (replicate 4 (Delivered (PSize 0)))))))
     = collective_calls (trace (snd (BroadcastGradient follower_env VerticalFederated
       (\<lambda>fs. []) (\<lambda>g. Returns g) [GradientPair 5 5]
       (fresh [Delivered (PSize 1), Delivered (PBytes [7]), Delivered (PSize 2),
               Delivered (PChars ''no'')]))))"
  using collective_calls_fixed_by_mode
    [where ?env1.0 = leader_env and ?env2.0 = follower_env and info = VerticalFederated
      and ?fnT1.0 = "\<lambda>s. Throws (DmlcError ''boom'') s" and ?sT1.0 = "0::nat"
      and ?ibT1.0 = "replicate 2 (Delivered (PSize 7) :: nat reply)" and ?mT1.0 = "''boom''"
      and ?stT1.0 = "\<lparr>inbox = [],
            trace = [Call_fn, Call_Broadcast (PSize 4), Call_Broadcast (PChars ''boom'')]\<rparr>"
      and ?fnT2.0 = "\<lambda>s. Returns s" and ?sT2.0 = "5::nat"
      and ?ibT2.0 = "[Delivered (PSize 2), Delivered (PChars ''no'') :: nat reply]"
      and ?mT2.0 = "''no''"
      and ?stT2.0 = "\<lparr>inbox = [],
            trace = [Call_Broadcast (PSize 0),
                     Call_Broadcast (PChars [CHR 0x00, CHR 0x00])]\<rparr>"
      and ?TA1.0 = "0::nat" and ?rA1.0 = "[]" and ?fnA1.0 = "\<lambda>r. Throws (DmlcError ''boom'') r"
      and ?ibA1.0 = "replicate 2 (Delivered (PSize 0))" and ?mA1.0 = "''boom''"
      and ?stA1.0 = "\<lparr>inbox = [],
            trace = [Call_fn, Call_Broadcast (PSize 4), Call_Broadcast (PChars ''boom'')]\<rparr>"
      and ?TA2.0 = "0::nat" and ?rA2.0 = "[1]" and ?fnA2.0 = "\<lambda>r. Returns r"
      and ?ibA2.0 = "[Delivered (PSize 2), Delivered (PChars ''no'')]" and ?mA2.0 = "''no''"
      and ?stA2.0 = "\<lparr>inbox = [],
            trace = [Call_Broadcast (PSize 0),
                     Call_Broadcast (PChars [CHR 0x00, CHR 0x00])]\<rparr>"
      and ?bB1.0 = "[0, 0]" and ?nB1.0 = 2 and ?fnB1.0 = "\<lambda>b. Throws (DmlcError ''boom'') b"
      and ?ibB1.0 = "replicate 2 (Delivered (PSize 0) :: nat reply)" and ?mB1.0 = "''boom''"
      and ?stB1.0 = "\<lparr>inbox = [],
            trace = [Call_fn, Call_Broadcast (PSize 4), Call_Broadcast (PChars ''boom'')]\<rparr>"
      and ?bB2.0 = "[9, 9]" and ?nB2.0 = 2 and ?fnB2.0 = "\<lambda>b. Returns b"
      and ?ibB2.0 = "[Delivered (PSize 2), Delivered (PChars ''no'') :: nat reply]"
      and ?mB2.0 = "''no''"
      and ?stB2.0 = "\<lparr>inbox = [],
            trace = [Call_Broadcast (PSize 0),
                     Call_Broadcast (PChars [CHR 0x00, CHR 0x00])]\<rparr>"
      and ?encG1.0 = "\<lambda>fs. [42, 43]"
      and ?fnG1.0 = "\<lambda>g. if length g = 2 then Throws (DmlcError ''boom'') g
                        else Returns [GradientPair 1 2, GradientPair 3 4]"
      and ?gG1.0 = "[GradientPair 9 9]" and ?ibG1.0 = "replicate 4 (Delivered (PSize 0))"
      and ?mG1.0 = "''boom''"
      and ?stG1.0 = "\<lparr>inbox = [],
            trace = [Call_fn, Call_EncryptGradient [1, 2, 3, 4], Call_Broadcast (PSize 2),
                     Call_Broadcast (PBytes [42, 43]), Call_SyncEncryptedGradient [42, 43],
                     Call_Fill, Call_fn, Call_Broadcast (PSize 4),
                     Call_Broadcast (PChars ''boom'')]\<rparr>"
      and ?encG2.0 = "\<lambda>fs. []" and ?fnG2.0 = "\<lambda>g. Returns g" and ?gG2.0 = "[GradientPair 5 5]"
      and ?ibG2.0 = "[Delivered (PSize 1), Delivered (PBytes [7]), Delivered (PSize 2),
               Delivered (PChars ''no'')]"
      and ?mG2.0 = "''no''"
      and ?stG2.0 = "\<lparr>inbox = [],
            trace = [Call_Broadcast (PSize 0), Call_Resize 1, Call_Broadcast (PBytes [0]),
                     Call_SyncEncryptedGradient [7], Call_Fill, Call_Broadcast (PSize 0),
                     Call_Broadcast (PChars [CHR 0x00, CHR 0x00])]\<rparr>"]
    collective_calls_fixed_by_mode
    [where ?env1.0 = leader_env and ?env2.0 = follower_env and info = VerticalFederated
      and ?fnT1.0 = "\<lambda>s. Returns (s + 1)" and ?sT1.0 = "0::nat"
      and ?ibT1.0 = "[Delivered (PSize 7) :: nat reply]" and ?tT1.0 = 1
      and ?stT1.0 = "\<lparr>inbox = [], trace = [Call_fn, Call_Broadcast (PSize 0)]\<rparr>"
      and ?fnT2.0 = "\<lambda>s. Returns s" and ?sT2.0 = "5::nat"
      and ?ibT2.0 = "[Delivered (PSize 0) :: nat reply]" and ?tT2.0 = 5
      and ?stT2.0 = "\<lparr>inbox = [], trace = [Call_Broadcast (PSize 0)]\<rparr>"
      and ?TA1.0 = "0::nat" and ?rA1.0 = "[]" and ?fnA1.0 = "\<lambda>r. Returns [4, 5, 6]"
      and ?ibA1.0 = "replicate 3 (Delivered (PSize 0))" and ?oA1.0 = "[4, 5, 6]"
      and ?stA1.0 = "\<lparr>inbox = [],
            trace = [Call_fn, Call_Broadcast (PSize 0), Call_Broadcast (PSize 3),
                     Call_Resize 3, Call_Broadcast (PElems [4, 5, 6])]\<rparr>"
      and ?TA2.0 = "0::nat" and ?rA2.0 = "[1]" and ?fnA2.0 = "\<lambda>r. Returns r"
      and ?ibA2.0 = "[Delivered (PSize 0), Delivered (PSize 2), Delivered (PElems [8, 9])]"
      and ?oA2.0 = "[8, 9]"
      and ?stA2.0 = "\<lparr>inbox = [],
            trace = [Call_Broadcast (PSize 0), Call_Broadcast (PSize 1),
                     Call_Resize 2, Call_Broadcast (PElems [1, 0])]\<rparr>"
      and ?bB1.0 = "[0, 0]" and ?nB1.0 = 2 and ?fnB1.0 = "\<lambda>b. Returns [7, 8]"
      and ?ibB1.0 = "replicate 2 (Delivered (PSize 0) :: nat reply)" and ?oB1.0 = "[7, 8]"
      and ?stB1.0 = "\<lparr>inbox = [],
            trace = [Call_fn, Call_Broadcast (PSize 0), Call_Broadcast (PBytes [7, 8])]\<rparr>"
      and ?bB2.0 = "[9, 9]" and ?nB2.0 = 2 and ?fnB2.0 = "\<lambda>b. Returns b"
      and ?ibB2.0 = "[Delivered (PSize 0), Delivered (PBytes [3, 4]) :: nat reply]"
      and ?oB2.0 = "[3, 4]"
      and ?stB2.0 = "\<lparr>inbox = [],
            trace = [Call_Broadcast (PSize 0), Call_Broadcast (PBytes [9, 9])]\<rparr>"
      and ?encG1.0 = "\<lambda>fs. [42, 43]" and ?fnG1.0 = "\<lambda>g. Returns [GradientPair 1 2]"
      and ?gG1.0 = "[]" and ?ibG1.0 = "replicate 5 (Delivered (PSize 0))"
      and ?oG1.0 = "[GradientPair 1 2]"
      and ?stG1.0 = "\<lparr>inbox = [],
            trace = [Call_fn, Call_EncryptGradient [1, 2], Call_Broadcast (PSize 2),
                     Call_Broadcast (PBytes [42, 43]), Call_SyncEncryptedGradient [42, 43],
                     Call_Fill, Call_fn, Call_Broadcast (PSize 0), Call_Broadcast (PSize 1),
                     Call_Resize 1, Call_Broadcast (PElems [GradientPair 1 2])]\<rparr>"
      and ?encG2.0 = "\<lambda>fs. []" and ?fnG2.0 = "\<lambda>g. Returns g" and ?gG2.0 = "[GradientPair 5 5]"
      and ?ibG2.0 = "[Delivered (PSize 1), Delivered (PBytes [7]), Delivered (PSize 0),
               Delivered (PSize 2), Delivered (PElems [GradientPair 3 3, GradientPair 4 4])]"
      and ?oG2.0 = "[GradientPair 3 3, GradientPair 4 4]"
      and ?stG2.0 = "\<lparr>inbox = [],
            trace = [Call_Broadcast (PSize 0), Call_Resize 1, Call_Broadcast (PBytes [0]),
                     Call_SyncEncryptedGradient [7], Call_Fill, Call_Broadcast (PSize 0),
                     Call_Broadcast (PSize 1), Call_Resize 2,
                     Call_Broadcast (PElems [GradientPair 0 0, GradientPair 0 0])]\<rparr>"]
  by (simp add: leader_env_def follower_env_def IsVerticalFederated_def fresh_def
      BroadcastGradient_def ApplyWithLabels_def ApplyWithLabels_buffer_def
      TryApplyWithLabels_def worker_defs bcast_defs SafeColl_def Resize_def Fill_def
      as_floats_def c_str_def numeral_3_eq_3 numeral_2_eq_2 eval_nat_numeral)

text \<open>
  Claim C8 as the spec words it fails: with the same mode, rank and replies, a leader
  whose function returns and a leader whose function raises \<^verbatim>\<open>dmlc::Error("boom")\<close> issue
  different sequences, one \<^verbatim>\<open>Broadcast\<close> against two in \<^verbatim>\<open>TryApplyWithLabels\<close>, three
  against two in \<^verbatim>\<open>ApplyWithLabels\<close>; so does a follower of each.
\<close>

theorem collective_calls_claim_counterexample:
  "collective_calls (trace (snd (TryApplyWithLabels leader_env (\<lambda>s. Returns s) (0::nat)
       (fresh [Delivered (PSize 0), Delivered (PSize 0), Delivered (PSize 0) :: nat reply]))))
     = [BroadcastCall]
   \<and> collective_calls (trace (snd (TryApplyWithLabels leader_env
       (\<lambda>s. Throws (DmlcError ''boom'') s) (0::nat)
       (fresh [Delivered (PSize 0), Delivered (PSize 0), Delivered (PSize 0) :: nat reply]))))
     = [BroadcastCall, BroadcastCall]
   \<and> collective_calls (trace (snd (ApplyWithLabels leader_env VerticalFederated (0::nat) [1]
       (\<lambda>r. Returns r)
       (fresh [Delivered (PSize 0), Delivered (PSize 0), Delivered (PSize 0)]))))
     = [BroadcastCall, BroadcastCall, BroadcastCall]
   \<and> collective_calls (trace (snd (ApplyWithLabels leader_env VerticalFederated (0::nat) [1]
       (\<lambda>r. Throws (DmlcError ''boom'') r)
       (fresh [Delivered (PSize 0), Delivered (PSize 0), Delivered (PSize 0)]))))
     = [BroadcastCall, BroadcastCall]
   \<and> collective_calls (trace (snd (ApplyWithLabels follower_env VerticalFederated (0::nat) [1]
       (\<lambda>r. Returns r)
       (fresh [Delivered (PSize 0), Delivered (PSize 1), Delivered (PElems [1])]))))
     = [BroadcastCall, BroadcastCall, BroadcastCall]
   \<and> collective_calls (trace (snd (ApplyWithLabels follower_env VerticalFederated (0::nat) [1]
       (\<lambda>r. Returns r)
       (fresh [Delivered (PSize 4), Delivered (PChars ''boom'')]))))
     = [BroadcastCall, BroadcastCall]"
  by (simp add: leader_env_def follower_env_def IsVerticalFederated_def fresh_def
      ApplyWithLabels_def TryApplyWithLabels_def worker_defs bcast_defs SafeColl_def Resize_def
      c_str_def)

section \<open>Secure gradient broadcast: the encrypted branch\<close>

lemma Fill_replicate: "Fill v xs = replicate (length xs) v"
  by (simp add: Fill_def map_replicate_const)

lemma TryApply_no_sync:
  "sync_calls (trace (snd (TryApplyWithLabels env fn s st))) = sync_calls (trace st)"
  by (auto simp: TryApplyWithLabels_def worker_defs bcast_defs Let_def sync_calls_def
      split: if_splits list.splits reply.splits completion.splits exn.splits)

lemma ApplyWithLabels_tail_no_sync:
  "sync_calls (trace (snd (then_do
        (chain
          (chain (return (rc0, (r1, length r1)))
            (\<lambda>(result, sz).
               then_do (Broadcast_size env sz 0) (\<lambda>(rc, sz'). return (rc, (result, sz')))))
          (\<lambda>(result, sz).
             then_do (record_call (Call_Resize sz))
               (\<lambda>_. then_do (Broadcast_elems env (Resize T0 sz result) 0)
                       (\<lambda>(rc, result'). return (rc, (result', sz))))))
        (\<lambda>(rc, (result, _)). then_do (SafeColl rc) (\<lambda>_. return result))
        st))) = sync_calls (trace st)"
  by (auto simp: worker_defs bcast_defs Let_def SafeColl_def sync_calls_def
      split: if_splits list.splits reply.splits Result.splits)

lemma ApplyWithLabels_no_sync:
  "sync_calls (trace (snd (ApplyWithLabels env info T0 r fn st))) = sync_calls (trace st)"
proof (cases "IsVerticalFederated info")
  case False
  then show ?thesis
    by (simp add: ApplyWithLabels_def call_def emit_def sync_calls_def split: completion.split)
next
  case True
  obtain o1 st1 where t: "TryApplyWithLabels env fn r st = (o1, st1)"
    by (cases "TryApplyWithLabels env fn r st")
  have n1: "sync_calls (trace st1) = sync_calls (trace st)"
    using TryApply_no_sync [of env fn r st] t by simp
  show ?thesis
  proof (cases o1)
    case (Stop h)
    with True t n1 show ?thesis by (simp add: ApplyWithLabels_def then_do_def)
  next
    case (Ret x)
    obtain rc r1 where x: "x = (rc, r1)" by (cases x)
    from True t Ret x n1 show ?thesis
      using ApplyWithLabels_tail_no_sync [of rc r1 env T0 st1]
      by (simp add: ApplyWithLabels_def then_do_def [of "TryApplyWithLabels env fn r"])
  qed
qed

lemma BroadcastGradient_sync_at_most_once:
  "sync_calls (trace (snd (BroadcastGradient env info EncryptGradient grad_fn g st)))
     \<le> sync_calls (trace st) + 1"
  by (auto simp: BroadcastGradient_def worker_defs bcast_defs SafeColl_def Let_def
      ApplyWithLabels_no_sync sync_calls_append
      split: list.splits reply.splits if_splits Result.splits completion.splits)
    (simp_all add: sync_calls_def)

text \<open>
  Claim C5. In the federated-encrypted branch of a federated build, the leader evaluates
  the gradient function, hands the floats of the gradient to \<^verbatim>\<open>EncryptGradient\<close>,
  broadcasts the byte length of the payload and then the payload, hands the payload to
  \<^verbatim>\<open>SyncEncryptedGradient\<close> and zeroes its gradient buffer; a follower broadcasts the
  length (receiving the leader's), allocates a buffer of that length, broadcasts the
  payload into it, hands what it received to \<^verbatim>\<open>SyncEncryptedGradient\<close> and zeroes its
  gradient buffer. Either worker then runs \<^verbatim>\<open>ApplyWithLabels\<close> once, over the zeroed
  buffer and with the same gradient function, and that last step never calls
  \<^verbatim>\<open>SyncEncryptedGradient\<close>: the plugin is handed a payload exactly once. No invocation,
  however it ends, hands the plugin a payload more than once.
\<close>

theorem BroadcastGradient_encrypted_sequence:
  assumes "IsVerticalFederated info" and "IsEncrypted env"
    and "XGBOOST_USE_FEDERATED env" and "comm_is_FederatedComm env"
  shows "(GetRank env = 0 \<longrightarrow> grad_fn g = Returns g1 \<longrightarrow>
            BroadcastGradient env info EncryptGradient grad_fn g
              (fresh (Delivered p1 # Delivered p2 # rest))
            = ApplyWithLabels env info (GradientPair 0 0)
                (replicate (length g1) (GradientPair 0 0)) grad_fn
                \<lparr>inbox = rest,
                 trace = [Call_fn, Call_EncryptGradient (as_floats g1),
                          Call_Broadcast (PSize (length (EncryptGradient (as_floats g1)))),
                          Call_Broadcast (PBytes (EncryptGradient (as_floats g1))),
                          Call_SyncEncryptedGradient (EncryptGradient (as_floats g1)),
                          Call_Fill]\<rparr>
          \<and> sync_calls (trace (snd (BroadcastGradient env info EncryptGradient grad_fn g
                (fresh (Delivered p1 # Delivered p2 # rest))))) = 1)
       \<and> (GetRank env \<noteq> 0 \<longrightarrow>
            BroadcastGradient env info EncryptGradient grad_fn g
              (fresh (Delivered (PSize (length e)) # Delivered (PBytes e) # rest))
            = ApplyWithLabels env info (GradientPair 0 0)
                (replicate (length g) (GradientPair 0 0)) grad_fn
                \<lparr>inbox = rest,
                 trace = [Call_Broadcast (PSize 0), Call_Resize (length e),
                          Call_Broadcast (PBytes (replicate (length e) 0)),
                          Call_SyncEncryptedGradient e, Call_Fill]\<rparr>
          \<and> sync_calls (trace (snd (BroadcastGradient env info EncryptGradient grad_fn g
                (fresh (Delivered (PSize (length e)) # Delivered (PBytes e) # rest))))) = 1)
       \<and> sync_calls (trace (snd (BroadcastGradient env info EncryptGradient grad_fn g
             (fresh ib)))) \<le> 1"
proof (intro conjI impI)
  assume ldr: "GetRank env = 0" and g1: "grad_fn g = Returns g1"
  note eq = BroadcastGradient_encrypted_leader
    [of env info grad_fn g g1 EncryptGradient p1 p2 rest "[]",
      OF ldr assms(1) assms(2) assms(3) assms(4) g1]
  from eq show "BroadcastGradient env info EncryptGradient grad_fn g
              (fresh (Delivered p1 # Delivered p2 # rest))
            = ApplyWithLabels env info (GradientPair 0 0)
                (replicate (length g1) (GradientPair 0 0)) grad_fn
                \<lparr>inbox = rest,
                 trace = [Call_fn, Call_EncryptGradient (as_floats g1),
                          Call_Broadcast (PSize (length (EncryptGradient (as_floats g1)))),
                          Call_Broadcast (PBytes (EncryptGradient (as_floats g1))),
                          Call_SyncEncryptedGradient (EncryptGradient (as_floats g1)),
                          Call_Fill]\<rparr>"
    by (simp add: fresh_def Fill_replicate)
  from eq show "sync_calls (trace (snd (BroadcastGradient env info EncryptGradient grad_fn g
                (fresh (Delivered p1 # Delivered p2 # rest))))) = 1"
    by (simp add: fresh_def ApplyWithLabels_no_sync) (simp add: sync_calls_def)
next
  assume flw: "GetRank env \<noteq> 0"
  note eq = BroadcastGradient_encrypted_follower
    [of env info EncryptGradient grad_fn g e rest "[]",
      OF flw assms(1) assms(2) assms(3) assms(4)]
  from eq show "BroadcastGradient env info EncryptGradient grad_fn g
              (fresh (Delivered (PSize (length e)) # Delivered (PBytes e) # rest))
            = ApplyWithLabels env info (GradientPair 0 0)
                (replicate (length g) (GradientPair 0 0)) grad_fn
                \<lparr>inbox = rest,
                 trace = [Call_Broadcast (PSize 0), Call_Resize (length e),
                          Call_Broadcast (PBytes (replicate (length e) 0)),
                          Call_SyncEncryptedGradient e, Call_Fill]\<rparr>"
    by (simp add: fresh_def Fill_replicate)
  from eq show "sync_calls (trace (snd (BroadcastGradient env info EncryptGradient grad_fn g
                (fresh (Delivered (PSize (length e)) # Delivered (PBytes e) # rest))))) = 1"
    by (simp add: fresh_def ApplyWithLabels_no_sync) (simp add: sync_calls_def)
next
  show "sync_calls (trace (snd (BroadcastGradient env info EncryptGradient grad_fn g
          (fresh ib)))) \<le> 1"
    using BroadcastGradient_sync_at_most_once [of env info EncryptGradient grad_fn g "fresh ib"]
    by (simp add: fresh_def sync_calls_def)
qed

text \<open>The whole trace of a leader and of a follower that receives the leader's
  broadcasts.\<close>

theorem BroadcastGradient_encrypted_sequence_witness:
  "trace (snd (BroadcastGradient leader_env VerticalFederated (\<lambda>fs. [42, 43])
       (\<lambda>g. Returns [GradientPair 1 2]) [GradientPair 9 9]
       (fresh (replicate 5 (Delivered (PSize 0))))))
     = [Call_fn, Call_EncryptGradient [1, 2], Call_Broadcast (PSize 2),
        Call_Broadcast (PBytes [42, 43]), Call_SyncEncryptedGradient [42, 43], Call_Fill,
        Call_fn, Call_Broadcast (PSize 0), Call_Broadcast (PSize 1), Call_Resize 1,
        Call_Broadcast (PElems [GradientPair 1 2])]
   \<and> trace (snd (BroadcastGradient follower_env VerticalFederated (\<lambda>fs. [])
       (\<lambda>g. Returns g) [GradientPair 9 9]
       (fresh [Delivered (PSize 2), Delivered (PBytes [42, 43]), Delivered (PSize 0),
               Delivered (PSize 1), Delivered (PElems [GradientPair 1 2])])))
     = [Call_Broadcast (PSize 0), Call_Resize 2, Call_Broadcast (PBytes [0, 0]),
        Call_SyncEncryptedGradient [42, 43], Call_Fill,
        Call_Broadcast (PSize 0), Call_Broadcast (PSize 1), Call_Resize 1,
        Call_Broadcast (PElems [GradientPair 0 0])]
   \<and> sync_calls (trace (snd (BroadcastGradient leader_env VerticalFederated (\<lambda>fs. [42, 43])
       (\<lambda>g. Returns [GradientPair 1 2]) [GradientPair 9 9]
       (fresh (replicate 5 (Delivered (PSize 0))))))) = 1
   \<and> sync_calls (trace (snd (BroadcastGradient follower_env VerticalFederated (\<lambda>fs. [])
       (\<lambda>g. Returns g) [GradientPair 9 9]
       (fresh [Delivered (PSize 2), Delivered (PBytes [42, 43]), Delivered (PSize 0),
               Delivered (PSize 1), Delivered (PElems [GradientPair 1 2])])))) = 1"
  using
    BroadcastGradient_encrypted_sequence
      [of VerticalFederated leader_env "\<lambda>g. Returns [GradientPair 1 2]" "[GradientPair 9 9]"
        "[GradientPair 1 2]" "\<lambda>fs. [42, 43]" "PSize 0" "PSize 0"
        "replicate 3 (Delivered (PSize 0))" "[]"]
    BroadcastGradient_encrypted_sequence
      [of VerticalFederated follower_env "\<lambda>g. Returns g" "[GradientPair 9 9]"
        "[]" "\<lambda>fs. []" "PSize 0" "PSize 0"
        "[Delivered (PSize 0), Delivered (PSize 1), Delivered (PElems [GradientPair 1 2])]"
        "[42, 43]"]
  by (simp add: leader_env_def follower_env_def IsVerticalFederated_def fresh_def
      ApplyWithLabels_def TryApplyWithLabels_def worker_defs bcast_defs SafeColl_def
      Resize_def as_floats_def sync_calls_def eval_nat_numeral)

text \<open>
  Claim C9. In the federated-encrypted branch, an invocation that returns on the leader
  has evaluated the gradient function exactly twice: once on the buffer it was given,
  with the result \<open>g1\<close> that is encrypted, and once more inside the final
  \<^verbatim>\<open>ApplyWithLabels\<close> on the zeroed \<open>g1\<close>, and what the leader holds at the end is the
  result of that second evaluation; so the final gradient is the encrypted one only if
  the function computes the same gradient again. A follower never evaluates it, however
  its invocation ends.
\<close>

theorem grad_fn_evaluated_twice_on_leader:
  assumes "IsVerticalFederated info" and "IsEncrypted env"
  shows "(GetRank env = 0 \<longrightarrow>
            BroadcastGradient env info EncryptGradient grad_fn g (fresh ib) = (Ret out, st') \<longrightarrow>
            fn_calls (trace st') = 2
          \<and> (\<exists>g1. grad_fn g = Returns g1
                 \<and> Call_EncryptGradient (as_floats g1) \<in> set (trace st')
                 \<and> (grad_fn (replicate (length g1) (GradientPair 0 0)) = Returns out
                    \<or> (\<exists>w. grad_fn (replicate (length g1) (GradientPair 0 0))
                              = Throws (DmlcError w) out \<and> c_str w = []))))
       \<and> (GetRank env \<noteq> 0 \<longrightarrow>
            fn_calls (trace (snd (BroadcastGradient env info EncryptGradient grad_fn g
              (fresh ib)))) = 0)"
proof (intro conjI impI)
  assume ldr: "GetRank env = 0"
    and run: "BroadcastGradient env info EncryptGradient grad_fn g (fresh ib) = (Ret out, st')"
  from run have run': "BroadcastGradient env info EncryptGradient grad_fn g
                         \<lparr>inbox = ib, trace = []\<rparr> = (Ret out, st')"
    by (simp add: fresh_def)
  from BroadcastGradient_encrypted_Ret_inv [OF assms(1) assms(2) run'] ldr
  obtain g1 pre rest where
    fin: "ApplyWithLabels env info (GradientPair 0 0) (Fill (GradientPair 0 0) g1) grad_fn
            \<lparr>inbox = rest, trace = [] @ pre\<rparr> = (Ret out, st')"
    and g1: "grad_fn g = Returns g1" and n: "fn_calls pre = 1"
    and enc: "Call_EncryptGradient (as_floats g1) \<in> set pre"
    by blast
  note inv = ApplyWithLabels_leader_inv [OF ldr assms(1) fin]
  from inv n show "fn_calls (trace st') = 2"
    by (simp add: fn_calls_append) (simp add: fn_calls_def)
  from inv have second:
    "grad_fn (replicate (length g1) (GradientPair 0 0)) = Returns out
     \<or> (\<exists>w. grad_fn (replicate (length g1) (GradientPair 0 0)) = Throws (DmlcError w) out
               \<and> c_str w = [])"
    by (simp add: Fill_replicate)
  from inv enc have "Call_EncryptGradient (as_floats g1) \<in> set (trace st')" by simp
  with g1 second
  show "\<exists>g1. grad_fn g = Returns g1
          \<and> Call_EncryptGradient (as_floats g1) \<in> set (trace st')
          \<and> (grad_fn (replicate (length g1) (GradientPair 0 0)) = Returns out
             \<or> (\<exists>w. grad_fn (replicate (length g1) (GradientPair 0 0))
                       = Throws (DmlcError w) out \<and> c_str w = []))"
    by blast
next
  assume "GetRank env \<noteq> 0"
  then show "fn_calls (trace (snd (BroadcastGradient env info EncryptGradient grad_fn g
              (fresh ib)))) = 0"
    using BroadcastGradient_encrypted_follower_no_fn
      [of env info EncryptGradient grad_fn g "fresh ib"] assms
    by (simp add: fresh_def fn_calls_def)
qed

text \<open>A gradient function that adds one to the first component of what it is given: the
  floats handed to the plugin come from the first evaluation, the leader ends with the
  second, computed from the zeroed buffer.\<close>

theorem grad_fn_evaluated_twice_on_leader_witness:
  "BroadcastGradient leader_env VerticalFederated (\<lambda>fs. [42, 43])
     (\<lambda>g. Returns (map (\<lambda>p. GradientPair (grad p + 1) 7) g)) [GradientPair 4 0]
     (fresh (replicate 5 (Delivered (PSize 0))))
   = (Ret [GradientPair 1 7],
      \<lparr>inbox = [],
       trace = [Call_fn, Call_EncryptGradient [5, 7], Call_Broadcast (PSize 2),
                Call_Broadcast (PBytes [42, 43]), Call_SyncEncryptedGradient [42, 43], Call_Fill,
                Call_fn, Call_Broadcast (PSize 0), Call_Broadcast (PSize 1), Call_Resize 1,
                Call_Broadcast (PElems [GradientPair 1 7])]\<rparr>)
   \<and> fn_calls (trace (snd (BroadcastGradient leader_env VerticalFederated (\<lambda>fs. [42, 43])
       (\<lambda>g. Returns (map (\<lambda>p. GradientPair (grad p + 1) 7) g)) [GradientPair 4 0]
       (fresh (replicate 5 (Delivered (PSize 0))))))) = 2
   \<and> fn_calls (trace (snd (BroadcastGradient follower_env VerticalFederated (\<lambda>fs. [])
       (\<lambda>g. Returns (map (\<lambda>p. GradientPair (grad p + 1) 7) g)) [GradientPair 4 0]
       (fresh [Delivered (PSize 2), Delivered (PBytes [42, 43]), Delivered (PSize 0),
               Delivered (PSize 1), Delivered (PElems [GradientPair 1 7])])))) = 0"
  using
    grad_fn_evaluated_twice_on_leader
      [of VerticalFederated leader_env "\<lambda>fs. [42, 43]"
        "\<lambda>g. Returns (map (\<lambda>p. GradientPair (grad p + 1) 7) g)" "[GradientPair 4 0]"
        "replicate 5 (Delivered (PSize 0))" "[GradientPair 1 7]"
        "\<lparr>inbox = [],
          trace = [Call_fn, Call_EncryptGradient [5, 7], Call_Broadcast (PSize 2),
                   Call_Broadcast (PBytes [42, 43]), Call_SyncEncryptedGradient [42, 43], Call_Fill,
                   Call_fn, Call_Broadcast (PSize 0), Call_Broadcast (PSize 1), Call_Resize 1,
                   Call_Broadcast (PElems [GradientPair 1 7])]\<rparr>"]
    grad_fn_evaluated_twice_on_leader
      [of VerticalFederated follower_env "\<lambda>fs. []"
        "\<lambda>g. Returns (map (\<lambda>p. GradientPair (grad p + 1) 7) g)" "[GradientPair 4 0]"
        "[Delivered (PSize 2), Delivered (PBytes [42, 43]), Delivered (PSize 0),
          Delivered (PSize 1), Delivered (PElems [GradientPair 1 7])]"]
  by (simp add: leader_env_def follower_env_def IsVerticalFederated_def fresh_def
      BroadcastGradient_def ApplyWithLabels_def TryApplyWithLabels_def worker_defs bcast_defs
      SafeColl_def Resize_def Fill_def as_floats_def fn_calls_def eval_nat_numeral)

section \<open>Secure gradient broadcast: what a follower ends up holding\<close>

text \<open>
  Claim C1 fails on the code. After both workers have zeroed their buffers, the final
  \<^verbatim>\<open>ApplyWithLabels\<close> makes the leader evaluate the gradient function again and broadcast
  the result: the leader hands its plaintext gradient (here the pair of the floats
  \<open>1.0\<close> and \<open>2.0\<close>) to \<^verbatim>\<open>Broadcast\<close>, and a follower that receives what the leader
  broadcast returns from \<^verbatim>\<open>BroadcastGradient\<close> holding exactly that gradient in its
  buffer.
\<close>

theorem BroadcastGradient_follower_holds_plaintext:
  "BroadcastGradient leader_env VerticalFederated (\<lambda>fs. [42, 43])
     (\<lambda>g. Returns [GradientPair 0x3F800000 0x40000000]) [GradientPair 0 0]
     (fresh (replicate 5 (Delivered (PSize 0))))
   = (Ret [GradientPair 0x3F800000 0x40000000],
      \<lparr>inbox = [],
       trace = [Call_fn, Call_EncryptGradient [0x3F800000, 0x40000000],
                Call_Broadcast (PSize 2), Call_Broadcast (PBytes [42, 43]),
                Call_SyncEncryptedGradient [42, 43], Call_Fill, Call_fn,
                Call_Broadcast (PSize 0), Call_Broadcast (PSize 1), Call_Resize 1,
                Call_Broadcast (PElems [GradientPair 0x3F800000 0x40000000])]\<rparr>)
   \<and> BroadcastGradient follower_env VerticalFederated (\<lambda>fs. [42, 43])
       (\<lambda>g. Returns [GradientPair 0x3F800000 0x40000000]) [GradientPair 0 0]
       (fresh (heard (trace (snd
          (BroadcastGradient leader_env VerticalFederated (\<lambda>fs. [42, 43])
             (\<lambda>g. Returns [GradientPair 0x3F800000 0x40000000]) [GradientPair 0 0]
             (fresh (replicate 5 (Delivered (PSize 0)))))))))
     = (Ret [GradientPair 0x3F800000 0x40000000],
        \<lparr>inbox = [],
         trace = [Call_Broadcast (PSize 0), Call_Resize 2, Call_Broadcast (PBytes [0, 0]),
                  Call_SyncEncryptedGradient [42, 43], Call_Fill,
                  Call_Broadcast (PSize 0), Call_Broadcast (PSize 1), Call_Resize 1,
                  Call_Broadcast (PElems [GradientPair 0 0])]\<rparr>)"
  by (simp add: leader_env_def follower_env_def IsVerticalFederated_def fresh_def heard_def
      BroadcastGradient_def ApplyWithLabels_def TryApplyWithLabels_def worker_defs bcast_defs
      SafeColl_def Resize_def Fill_def as_floats_def eval_nat_numeral)

end
